theory Spec2Isabelle
  imports Complex_Main "HOL-Library.AList"
begin

section \<open>CCYOE backtester and optimizer: a shallow embedding\<close>

text \<open>
  The development follows \<^verbatim>\<open>cambi_analytics/core/backtester.py\<close>,
  \<^verbatim>\<open>cambi_analytics/core/optimizer.py\<close> and
  \<^verbatim>\<open>cambi_analytics/utils/metrics.py\<close>.

  Conventions of the embedding.
  \<^item> A Python \<^verbatim>\<open>float\<close> is a \<^typ>\<open>real\<close>: arithmetic is exact, so a statement
    "within rounding tolerance" of the program reads as an equation here. Where the
    program can produce \<^verbatim>\<open>float('inf')\<close> or \<^verbatim>\<open>NaN\<close> on a path that a
    statement below depends on, the value is written out (\<open>PosInf\<close>, \<open>None\<close>).
  \<^item> A Python \<^verbatim>\<open>dict\<close> with string keys is an association list in insertion
    order; \<^verbatim>\<open>d[k]\<close> is \<^const>\<open>map_of\<close> with \<open>None\<close> as \<^verbatim>\<open>KeyError\<close>,
    \<^verbatim>\<open>d[k] = v\<close> is \<^const>\<open>AList.update\<close>, which keeps the position of an
    existing key and appends a new one.
  \<^item> A raised exception is a value of type \<open>error\<close>. A division by zero raises
    \<^verbatim>\<open>ZeroDivisionError\<close>, as it does on Python floats; where the operands have
    become numpy floats the program goes on with \<^verbatim>\<open>inf\<close> or \<^verbatim>\<open>NaN\<close>
    instead, and the model does not follow it there.
  \<^item> A function that mutates a dictionary and may raise returns the store as it is at
    that moment together with the outcome.
  \<^item> A timestamp is an integer number of nanoseconds, as in pandas.
\<close>

subsection \<open>Errors, dictionaries, timestamps\<close>

datatype error = ValueError | KeyError | ZeroDivisionError | IndexError | RuntimeError

type_synonym 'v dict = "(string \<times> 'v) list"

type_synonym timestamp = int

definition ns_per_day :: int where
  "ns_per_day = 86400 * 1000000000"

text \<open>\<^verbatim>\<open>(a - b).days\<close>: the whole days of a time difference, rounded towards minus
  infinity as \<^verbatim>\<open>timedelta\<close> normalises it.\<close>

definition days_between :: "timestamp \<Rightarrow> timestamp \<Rightarrow> int" where
  "days_between a b = (a - b) div ns_per_day"

text \<open>\<^verbatim>\<open>d.get(k, default)\<close>\<close>

definition dict_get_default :: "'v dict \<Rightarrow> string \<Rightarrow> 'v \<Rightarrow> 'v" where
  "dict_get_default d k dflt = (case map_of d k of Some v \<Rightarrow> v | None \<Rightarrow> dflt)"

text \<open>\<^verbatim>\<open>d[k] += x\<close>: reads \<^verbatim>\<open>d[k]\<close> first, so a missing key raises.\<close>

definition dict_add :: "real dict \<Rightarrow> string \<Rightarrow> real \<Rightarrow> error + real dict" where
  "dict_add d k x =
     (case map_of d k of
        None \<Rightarrow> Inl KeyError
      | Some v \<Rightarrow> Inr (AList.update k (v + x) d))"

text \<open>\<^verbatim>\<open>sum(d.values())\<close>\<close>

definition sum_values :: "real dict \<Rightarrow> real" where
  "sum_values d = sum_list (map snd d)"

subsection \<open>\<^verbatim>\<open>OptimizationConfig\<close>\<close>

record OptimizationConfig =
  under_supplied_allocation :: real
  strategic_growth_allocation :: real
  proportional_allocation :: real
  treasury_allocation :: real
  rebalance_threshold :: real
  min_rebalance_interval :: int
  max_rebalance_frequency :: int
  target_yields :: "real dict"
  supply_caps :: "real dict"
  transaction_cost :: real
  gas_cost_usd :: real

definition default_target_yields :: "real dict" where
  "default_target_yields = [(''cmBTC'', 500), (''cmUSD'', 1400), (''cmBRL'', 2000)]"

definition default_supply_caps :: "real dict" where
  "default_supply_caps = [(''cmBTC'', 20), (''cmUSD'', 50), (''cmBRL'', 1000)]"

text \<open>\<^verbatim>\<open>np.isclose(a, b)\<close> with the default \<^verbatim>\<open>rtol=1e-05\<close>, \<^verbatim>\<open>atol=1e-08\<close>:
  \<^verbatim>\<open>|a - b| <= atol + rtol * |b|\<close>.\<close>

definition np_isclose :: "real \<Rightarrow> real \<Rightarrow> bool" where
  "np_isclose a b \<longleftrightarrow> \<bar>a - b\<bar> \<le> 1 / 10 ^ 8 + (1 / 10 ^ 5) * \<bar>b\<bar>"

text \<open>The dataclass constructor followed by \<^verbatim>\<open>__post_init__\<close>. The two dictionary
  arguments are \<open>None\<close> when the caller leaves them out; the scalar arguments are the
  caller's values (or the dataclass defaults, see \<open>default_config\<close>).\<close>

definition post_init ::
  "real \<Rightarrow> real \<Rightarrow> real \<Rightarrow> real \<Rightarrow> real \<Rightarrow> int \<Rightarrow> int \<Rightarrow> real dict option \<Rightarrow> real dict option
     \<Rightarrow> real \<Rightarrow> real \<Rightarrow> error + OptimizationConfig" where
  "post_init us sg pr tr thr mri mrf ty sc tc gas =
     (let ty' = (case ty of None \<Rightarrow> default_target_yields | Some d \<Rightarrow> d);
          sc' = (case sc of None \<Rightarrow> default_supply_caps | Some d \<Rightarrow> d);
          total_allocation = us + sg + pr + tr
      in if \<not> np_isclose total_allocation 1
         then Inl ValueError
         else Inr \<lparr> under_supplied_allocation = us,
                    strategic_growth_allocation = sg,
                    proportional_allocation = pr,
                    treasury_allocation = tr,
                    rebalance_threshold = thr,
                    min_rebalance_interval = mri,
                    max_rebalance_frequency = mrf,
                    target_yields = ty',
                    supply_caps = sc',
                    transaction_cost = tc,
                    gas_cost_usd = gas \<rparr>)"

text \<open>\<^verbatim>\<open>OptimizationConfig()\<close> with every default.\<close>

definition default_config :: OptimizationConfig where
  "default_config =
     \<lparr> under_supplied_allocation = 40 / 100,
       strategic_growth_allocation = 30 / 100,
       proportional_allocation = 20 / 100,
       treasury_allocation = 10 / 100,
       rebalance_threshold = 100,
       min_rebalance_interval = 1,
       max_rebalance_frequency = 7,
       target_yields = default_target_yields,
       supply_caps = default_supply_caps,
       transaction_cost = 5,
       gas_cost_usd = 50 \<rparr>"

subsection \<open>Rows of the yield data, events and the simulation state\<close>

text \<open>One row of the data frame: the date and the yield (in basis points) in each of
  the three columns the simulation reads.\<close>

record yield_row =
  row_date :: timestamp
  row_cmBTC :: real
  row_cmUSD :: real
  row_cmBRL :: real

text \<open>The dictionary \<^verbatim>\<open>_execute_rebalancing\<close> returns. The empty dictionary
  \<^verbatim>\<open>{}\<close> of its early return is \<open>None\<close> in a \<open>rebalance_event option\<close>.\<close>

record rebalance_event =
  ev_date :: timestamp
  ev_total_excess_yield :: real
  ev_redistribution :: "real dict"
  ev_portfolio_impact :: "real dict"
  ev_transaction_cost :: real
  ev_gas_cost :: real

record daily_value =
  dv_date :: timestamp
  dv_portfolio_value :: real
  dv_cmBTC_value :: real
  dv_cmUSD_value :: real
  dv_cmBRL_value :: real

text \<open>Portfolio dictionaries are mutable objects that the program passes by reference.
  The store is a list of dictionaries and a reference is an index into it; allocation
  appends.\<close>

type_synonym heap = "real dict list"
type_synonym ref = nat

record sim_state =
  heap :: heap
  daily_values :: "daily_value list"
  rebalance_events :: "rebalance_event option list"
  daily_yields :: "(timestamp \<times> real dict) list"
  last_rebalance_date :: "timestamp option"

subsection \<open>\<^verbatim>\<open>_check_rebalance_conditions\<close>\<close>

fun excess_loop ::
  "OptimizationConfig \<Rightarrow> (string \<times> real) list \<Rightarrow> real dict \<times> real \<Rightarrow> real dict \<times> real" where
  "excess_loop cfg [] acc = acc"
| "excess_loop cfg ((asset, yield_value) # rest) (excess_yields, total_excess) =
     (let target_yield = dict_get_default (target_yields cfg) asset 0;
          excess = max 0 (yield_value - target_yield)
      in excess_loop cfg rest (AList.update asset excess excess_yields, total_excess + excess))"

definition check_rebalance_conditions ::
  "OptimizationConfig \<Rightarrow> real dict \<Rightarrow> real dict \<Rightarrow> timestamp option \<Rightarrow> timestamp
     \<Rightarrow> bool \<times> real dict" where
  "check_rebalance_conditions cfg current_yields current_portfolio last_date current_date =
     (let (excess_yields, total_excess) = excess_loop cfg current_yields ([], 0);
          threshold_met = (total_excess \<ge> rebalance_threshold cfg);
          time_interval_ok =
            (case last_date of
               None \<Rightarrow> True
             | Some d \<Rightarrow> days_between current_date d \<ge> min_rebalance_interval cfg)
      in (threshold_met \<and> time_interval_ok, excess_yields))"

subsection \<open>\<^verbatim>\<open>_calculate_yield_redistribution\<close>\<close>

definition under_supplied_amount :: "OptimizationConfig \<Rightarrow> real \<Rightarrow> real" where
  "under_supplied_amount cfg total_excess = total_excess * under_supplied_allocation cfg"

definition strategic_amount :: "OptimizationConfig \<Rightarrow> real \<Rightarrow> real" where
  "strategic_amount cfg total_excess = total_excess * strategic_growth_allocation cfg"

definition proportional_amount :: "OptimizationConfig \<Rightarrow> real \<Rightarrow> real" where
  "proportional_amount cfg total_excess = total_excess * proportional_allocation cfg"

definition treasury_amount :: "OptimizationConfig \<Rightarrow> real \<Rightarrow> real" where
  "treasury_amount cfg total_excess = total_excess * treasury_allocation cfg"

definition under_supplied_assets :: "string list" where
  "under_supplied_assets = [''cmBTC'', ''cmUSD'']"

text \<open>Step 1: the loop over \<^verbatim>\<open>under_supplied_assets\<close>.\<close>

fun under_supplied_loop :: "real \<Rightarrow> string list \<Rightarrow> real dict \<Rightarrow> error + real dict" where
  "under_supplied_loop amount [] redistribution = Inr redistribution"
| "under_supplied_loop amount (asset # rest) redistribution =
     (if amount > 0
      then (let allocation = amount / real (length under_supplied_assets)
            in case dict_add redistribution asset allocation of
                 Inl e \<Rightarrow> Inl e
               | Inr r \<Rightarrow> under_supplied_loop amount rest r)
      else under_supplied_loop amount rest redistribution)"

text \<open>\<^verbatim>\<open>value / self.config.supply_caps.get(asset, float('inf')) / 1e6\<close>. A cap that
  is missing is infinite and the quotient is zero; a cap of zero raises.\<close>

definition utilization :: "OptimizationConfig \<Rightarrow> string \<Rightarrow> real \<Rightarrow> error + real" where
  "utilization cfg asset v =
     (case map_of (supply_caps cfg) asset of
        None \<Rightarrow> Inr 0
      | Some cap \<Rightarrow> if cap = 0 then Inl ZeroDivisionError else Inr (v / cap / 1000000))"

text \<open>Step 2: the loop over \<^verbatim>\<open>portfolio.items()\<close> for the strategic-growth bucket.\<close>

fun strategic_loop ::
  "OptimizationConfig \<Rightarrow> real \<Rightarrow> (string \<times> real) list \<Rightarrow> real dict \<Rightarrow> error + real dict" where
  "strategic_loop cfg amount [] redistribution = Inr redistribution"
| "strategic_loop cfg amount ((asset, v) # rest) redistribution =
     (case utilization cfg asset v of
        Inl e \<Rightarrow> Inl e
      | Inr u \<Rightarrow>
          if u > 8 / 10
          then (let allocation = amount / 3
                in case dict_add redistribution asset allocation of
                     Inl e \<Rightarrow> Inl e
                   | Inr r \<Rightarrow> strategic_loop cfg amount rest r)
          else strategic_loop cfg amount rest redistribution)"

text \<open>Step 3: the loop over \<^verbatim>\<open>portfolio.items()\<close> for the proportional bucket.\<close>

fun proportional_loop ::
  "real \<Rightarrow> real \<Rightarrow> (string \<times> real) list \<Rightarrow> real dict \<Rightarrow> error + real dict" where
  "proportional_loop amount total_portfolio_value [] redistribution = Inr redistribution"
| "proportional_loop amount total_portfolio_value ((asset, v) # rest) redistribution =
     (if total_portfolio_value = 0 then Inl ZeroDivisionError
      else (let weight = v / total_portfolio_value;
                allocation = amount * weight
            in case dict_add redistribution asset allocation of
                 Inl e \<Rightarrow> Inl e
               | Inr r \<Rightarrow> proportional_loop amount total_portfolio_value rest r))"

definition calculate_yield_redistribution ::
  "OptimizationConfig \<Rightarrow> real dict \<Rightarrow> real dict \<Rightarrow> real \<Rightarrow> error + real dict" where
  "calculate_yield_redistribution cfg portfolio excess_yields total_excess =
     (let redistribution = [(''cmBTC'', 0), (''cmUSD'', 0), (''cmBRL'', 0)]
      in case under_supplied_loop (under_supplied_amount cfg total_excess)
                under_supplied_assets redistribution of
           Inl e \<Rightarrow> Inl e
         | Inr r1 \<Rightarrow>
             (let total_portfolio_value = sum_values portfolio
              in case strategic_loop cfg (strategic_amount cfg total_excess) portfolio r1 of
                   Inl e \<Rightarrow> Inl e
                 | Inr r2 \<Rightarrow>
                     proportional_loop (proportional_amount cfg total_excess)
                       total_portfolio_value portfolio r2))"

subsection \<open>\<^verbatim>\<open>_execute_rebalancing\<close>\<close>

text \<open>The loop over \<^verbatim>\<open>redistribution.items()\<close>. It mutates the dictionary behind
  the reference \<open>portfolio\<close>; when a statement raises, the store is left as it is at
  that moment.\<close>

fun boost_loop ::
  "OptimizationConfig \<Rightarrow> ref \<Rightarrow> (string \<times> real) list \<Rightarrow> heap \<times> real dict \<times> real
     \<Rightarrow> (heap \<times> real dict \<times> real) \<times> error option" where
  "boost_loop cfg portfolio [] s = (s, None)"
| "boost_loop cfg portfolio ((asset, boost) # rest) (h, rebalance_impact, total_transaction_cost) =
     (if boost > 0
      then (case map_of (h ! portfolio) asset of
              None \<Rightarrow> ((h, rebalance_impact, total_transaction_cost), Some KeyError)
            | Some balance \<Rightarrow>
                (let boost_rate = boost / 10000;
                     value_increase = balance * boost_rate;
                     h1 = h[portfolio := AList.update asset (balance + value_increase) (h ! portfolio)];
                     rebalance_impact' = AList.update asset value_increase rebalance_impact;
                     cost = value_increase * transaction_cost cfg / 10000;
                     h2 = h1[portfolio :=
                             AList.update asset (balance + value_increase - cost) (h1 ! portfolio)]
                 in boost_loop cfg portfolio rest
                      (h2, rebalance_impact', total_transaction_cost + cost)))
      else boost_loop cfg portfolio rest (h, rebalance_impact, total_transaction_cost))"

definition execute_rebalancing ::
  "OptimizationConfig \<Rightarrow> heap \<Rightarrow> ref \<Rightarrow> real dict \<Rightarrow> real dict \<Rightarrow> timestamp
     \<Rightarrow> heap \<times> (error + rebalance_event option)" where
  "execute_rebalancing cfg h portfolio excess_yields current_yields date =
     (let total_excess = sum_values excess_yields
      in if total_excess \<le> 0 then (h, Inr None)
         else (case calculate_yield_redistribution cfg (h ! portfolio) excess_yields total_excess of
                 Inl e \<Rightarrow> (h, Inl e)
               | Inr redistribution \<Rightarrow>
                   (case boost_loop cfg portfolio redistribution (h, [], 0) of
                      ((h', rebalance_impact, total_transaction_cost), Some e) \<Rightarrow> (h', Inl e)
                    | ((h', rebalance_impact, total_transaction_cost), None) \<Rightarrow>
                        (h', Inr (Some \<lparr> ev_date = date,
                                         ev_total_excess_yield = total_excess,
                                         ev_redistribution = redistribution,
                                         ev_portfolio_impact = rebalance_impact,
                                         ev_transaction_cost = total_transaction_cost,
                                         ev_gas_cost = gas_cost_usd cfg \<rparr>)))))"

subsection \<open>\<^verbatim>\<open>_run_simulation\<close>\<close>

definition calculate_portfolio_value :: "real dict \<Rightarrow> real dict \<Rightarrow> real" where
  "calculate_portfolio_value portfolio current_yields = sum_values portfolio"

definition assets :: "string list" where
  "assets = [''cmBTC'', ''cmUSD'', ''cmBRL'']"

text \<open>\<^verbatim>\<open>if rebalance_needed:\<close> and its three statements.\<close>

definition rebalance_phase ::
  "OptimizationConfig \<Rightarrow> ref \<Rightarrow> real dict \<Rightarrow> real dict \<Rightarrow> timestamp \<Rightarrow> sim_state
     \<Rightarrow> sim_state \<times> error option" where
  "rebalance_phase cfg current_portfolio excess_yields current_yields current_date st =
     (case execute_rebalancing cfg (heap st) current_portfolio excess_yields current_yields
             current_date of
        (h', Inl e) \<Rightarrow> (st\<lparr>heap := h'\<rparr>, Some e)
      | (h', Inr rebalance_result) \<Rightarrow>
          (st\<lparr>heap := h',
              rebalance_events := rebalance_events st @ [rebalance_result],
              last_rebalance_date := Some current_date\<rparr>, None))"

text \<open>\<^verbatim>\<open>daily_values.append({...})\<close>: the total is computed first, then the three
  balances are read.\<close>

definition record_daily_value ::
  "ref \<Rightarrow> timestamp \<Rightarrow> real dict \<Rightarrow> sim_state \<Rightarrow> sim_state \<times> error option" where
  "record_daily_value current_portfolio current_date current_yields st =
     (let p = heap st ! current_portfolio;
          v = calculate_portfolio_value p current_yields
      in case (map_of p ''cmBTC'', map_of p ''cmUSD'', map_of p ''cmBRL'') of
           (Some b, Some u, Some r) \<Rightarrow>
             (st\<lparr>daily_values := daily_values st @
                    [\<lparr> dv_date = current_date, dv_portfolio_value = v,
                       dv_cmBTC_value = b, dv_cmUSD_value = u, dv_cmBRL_value = r \<rparr>]\<rparr>, None)
         | _ \<Rightarrow> (st, Some KeyError))"

text \<open>The loop \<^verbatim>\<open>for asset in assets: current_portfolio[asset] *= (1 + daily_yield_rate)\<close>.\<close>

fun compound_loop :: "ref \<Rightarrow> real dict \<Rightarrow> string list \<Rightarrow> heap \<Rightarrow> heap \<times> error option" where
  "compound_loop current_portfolio current_yields [] h = (h, None)"
| "compound_loop current_portfolio current_yields (asset # rest) h =
     (case map_of current_yields asset of
        None \<Rightarrow> (h, Some KeyError)
      | Some y \<Rightarrow>
          (let daily_yield_rate = y / 10000 / 365
           in case map_of (h ! current_portfolio) asset of
                None \<Rightarrow> (h, Some KeyError)
              | Some balance \<Rightarrow>
                  compound_loop current_portfolio current_yields rest
                    (h[current_portfolio :=
                         AList.update asset (balance * (1 + daily_yield_rate))
                           (h ! current_portfolio)])))"

definition row_yields :: "yield_row \<Rightarrow> real dict" where
  "row_yields row = [(''cmBTC'', row_cmBTC row), (''cmUSD'', row_cmUSD row), (''cmBRL'', row_cmBRL row)]"

text \<open>The body of \<^verbatim>\<open>for idx, row in data.iterrows()\<close>, first block: the
  yields of the row are noted, the trigger is evaluated and the rebalancing is executed
  when it is needed.\<close>

definition trigger_phase ::
  "OptimizationConfig \<Rightarrow> ref \<Rightarrow> yield_row \<Rightarrow> sim_state \<Rightarrow> sim_state \<times> error option" where
  "trigger_phase cfg current_portfolio row st =
     (let current_date = row_date row;
          current_yields = row_yields row;
          st1 = st\<lparr>daily_yields := daily_yields st @ [(current_date, current_yields)]\<rparr>;
          (rebalance_needed, excess_yields) =
             check_rebalance_conditions cfg current_yields (heap st1 ! current_portfolio)
               (last_rebalance_date st1) current_date
      in if rebalance_needed
         then rebalance_phase cfg current_portfolio excess_yields current_yields current_date st1
         else (st1, None))"

text \<open>The whole body: the first block, then the daily value is appended, then the
  balances are compounded.\<close>

definition loop_body ::
  "OptimizationConfig \<Rightarrow> ref \<Rightarrow> yield_row \<Rightarrow> sim_state \<Rightarrow> sim_state \<times> error option" where
  "loop_body cfg current_portfolio row st =
     (case trigger_phase cfg current_portfolio row st of
        (st2, Some e) \<Rightarrow> (st2, Some e)
      | (st2, None) \<Rightarrow>
          (case record_daily_value current_portfolio (row_date row) (row_yields row) st2 of
             (st3, Some e) \<Rightarrow> (st3, Some e)
           | (st3, None) \<Rightarrow>
               (case compound_loop current_portfolio (row_yields row) assets (heap st3) of
                  (h', err) \<Rightarrow> (st3\<lparr>heap := h'\<rparr>, err))))"

fun sim_loop ::
  "OptimizationConfig \<Rightarrow> ref \<Rightarrow> yield_row list \<Rightarrow> sim_state \<Rightarrow> sim_state \<times> error option" where
  "sim_loop cfg current_portfolio [] st = (st, None)"
| "sim_loop cfg current_portfolio (row # rest) st =
     (case loop_body cfg current_portfolio row st of
        (st', Some e) \<Rightarrow> (st', Some e)
      | (st', None) \<Rightarrow> sim_loop cfg current_portfolio rest st')"

record simulation_results =
  sr_daily_values :: "daily_value list"
  sr_rebalance_events :: "rebalance_event option list"
  sr_daily_yields :: "(timestamp \<times> real dict) list"
  sr_final_portfolio :: ref

text \<open>\<^verbatim>\<open>deepcopy(initial_portfolio)\<close> allocates a new dictionary with the same
  items; every later statement works on the new reference.\<close>

definition deepcopy :: "heap \<Rightarrow> ref \<Rightarrow> heap \<times> ref" where
  "deepcopy h r = (h @ [h ! r], length h)"

text \<open>The local variables of \<^verbatim>\<open>_run_simulation\<close> before the loop.\<close>

definition init_state :: "heap \<Rightarrow> sim_state" where
  "init_state h = \<lparr> heap = h, daily_values = [], rebalance_events = [], daily_yields = [],
                    last_rebalance_date = None \<rparr>"

definition run_simulation ::
  "OptimizationConfig \<Rightarrow> heap \<Rightarrow> yield_row list \<Rightarrow> ref \<Rightarrow> heap \<times> (error + simulation_results)" where
  "run_simulation cfg h data initial_portfolio =
     (let (h0, current_portfolio) = deepcopy h initial_portfolio;
          st0 = init_state h0
      in case sim_loop cfg current_portfolio data st0 of
           (st, Some e) \<Rightarrow> (heap st, Inl e)
         | (st, None) \<Rightarrow>
             (heap st, Inr \<lparr> sr_daily_values = daily_values st,
                             sr_rebalance_events = rebalance_events st,
                             sr_daily_yields = daily_yields st,
                             sr_final_portfolio = current_portfolio \<rparr>))"

subsection \<open>\<^verbatim>\<open>_calculate_results\<close>\<close>

text \<open>
  The pandas operations on a series of numbers. The model covers series without zero
  divisors: where pandas would continue with \<^verbatim>\<open>inf\<close> or \<^verbatim>\<open>NaN\<close> after a
  division by a portfolio value of zero, the real-number model does not follow it.
  \<^verbatim>\<open>Series.std()\<close> of fewer than two numbers is \<^verbatim>\<open>NaN\<close>, written \<open>None\<close>.
\<close>

text \<open>\<^verbatim>\<open>s.pct_change().dropna()\<close>\<close>

fun pct_change :: "real list \<Rightarrow> real list" where
  "pct_change (a # b # rest) = (b / a - 1) # pct_change (b # rest)"
| "pct_change _ = []"

text \<open>\<^verbatim>\<open>s.cumprod()\<close>\<close>

fun cumprod_from :: "real \<Rightarrow> real list \<Rightarrow> real list" where
  "cumprod_from acc [] = []"
| "cumprod_from acc (x # xs) = (acc * x) # cumprod_from (acc * x) xs"

definition cumprod :: "real list \<Rightarrow> real list" where
  "cumprod xs = cumprod_from 1 xs"

text \<open>\<^verbatim>\<open>s.expanding().max()\<close>\<close>

fun expanding_max_from :: "real \<Rightarrow> real list \<Rightarrow> real list" where
  "expanding_max_from m [] = []"
| "expanding_max_from m (x # xs) = max m x # expanding_max_from (max m x) xs"

fun expanding_max :: "real list \<Rightarrow> real list" where
  "expanding_max [] = []"
| "expanding_max (x # xs) = x # expanding_max_from x xs"

text \<open>\<^verbatim>\<open>(cumulative - running_max) / running_max\<close>\<close>

definition drawdown_series :: "real list \<Rightarrow> real list" where
  "drawdown_series cumulative =
     map (\<lambda>(c, m). (c - m) / m) (zip cumulative (expanding_max cumulative))"

text \<open>\<^verbatim>\<open>s.std()\<close>: the sample standard deviation.\<close>

definition mean :: "real list \<Rightarrow> real" where
  "mean xs = sum_list xs / real (length xs)"

definition std :: "real list \<Rightarrow> real option" where
  "std xs =
     (if length xs < 2 then None
      else Some (sqrt (sum_list (map (\<lambda>x. (x - mean xs) ^ 2) xs) / real (length xs - 1))))"

text \<open>The result bundle. Of the fields of \<^verbatim>\<open>BacktestResults\<close> it has the six
  performance figures, the count and the log of the rebalance events, the yield
  improvements, the two cost totals and the two return series; the net yield after
  costs, the value-at-risk figures and the correlation summary are left out (they raise
  no exception of their own).\<close>

record BacktestResults =
  br_total_return :: real
  br_annualized_return :: real
  br_volatility :: "real option"
  br_sharpe_ratio :: real
  br_max_drawdown :: real
  br_calmar_ratio :: real
  br_total_rebalances :: nat
  br_avg_excess_yield :: real
  br_yield_improvement :: "real dict"
  br_total_transaction_costs :: real
  br_total_gas_costs :: real
  br_daily_returns :: "real list"
  br_cumulative_returns :: "real list"
  br_rebalance_events :: "rebalance_event option list"

text \<open>The loop of the dictionary comprehension for \<^verbatim>\<open>yield_improvement\<close>:
  \<^verbatim>\<open>actual_avg_yields[asset]\<close> raises for a key of the target yields that is no
  column of the averages.\<close>

fun yield_improvement_loop :: "real dict \<Rightarrow> (string \<times> real) list \<Rightarrow> error + real dict" where
  "yield_improvement_loop actual_avg_yields [] = Inr []"
| "yield_improvement_loop actual_avg_yields ((asset, baseline) # rest) =
     (case map_of actual_avg_yields asset of
        None \<Rightarrow> Inl KeyError
      | Some avg \<Rightarrow>
          (case yield_improvement_loop actual_avg_yields rest of
             Inl e \<Rightarrow> Inl e
           | Inr d \<Rightarrow> Inr ((asset, avg - baseline) # d)))"

text \<open>\<^verbatim>\<open>daily_yields[['cmBTC', 'cmUSD', 'cmBRL']].mean()\<close>\<close>

definition actual_avg_yields_of :: "(timestamp \<times> real dict) list \<Rightarrow> real dict" where
  "actual_avg_yields_of yield_log =
     map (\<lambda>asset. (asset, mean (map (\<lambda>(d, ys). the (map_of ys asset)) yield_log))) assets"

text \<open>The column sums over the event log skip the rows of empty events; the column
  does not exist when every event is empty.\<close>

definition column_sum ::
  "(rebalance_event \<Rightarrow> real) \<Rightarrow> rebalance_event option list \<Rightarrow> error + real" where
  "column_sum col events =
     (if length events > 0
      then (if \<forall>e \<in> set events. e = None then Inl KeyError
            else Inr (sum_list (map col (List.map_filter id events))))
      else Inr 0)"

text \<open>\<^verbatim>\<open>cumulative_returns.iloc[-1]\<close> raises on an empty series. The power
  \<^verbatim>\<open>**\<close> is \<open>powr\<close>, which agrees with it on a base that is not negative.\<close>

definition calculate_results ::
  "OptimizationConfig \<Rightarrow> simulation_results \<Rightarrow> error + BacktestResults" where
  "calculate_results cfg simulation_results =
     (let rebalance_events = sr_rebalance_events simulation_results;
          daily_returns = pct_change (map dv_portfolio_value (sr_daily_values simulation_results));
          cumulative_returns = map (\<lambda>w. w - 1) (cumprod (map (\<lambda>r. 1 + r) daily_returns))
      in if cumulative_returns = [] then Inl IndexError
         else
          (let total_return = last cumulative_returns;
               annualized_return =
                 (1 + total_return) powr (252 / real (length daily_returns)) - 1;
               volatility = map_option (\<lambda>s. s * sqrt 252) (std daily_returns);
               sharpe_ratio =
                 (case volatility of
                    Some v \<Rightarrow> if v > 0 then annualized_return / v else 0
                  | None \<Rightarrow> 0);
               cumulative_wealth = cumprod (map (\<lambda>r. 1 + r) daily_returns);
               max_drawdown = Min (set (drawdown_series cumulative_wealth));
               calmar_ratio =
                 (if max_drawdown \<noteq> 0 then annualized_return / \<bar>max_drawdown\<bar> else 0);
               baseline_yields = target_yields cfg
           in case yield_improvement_loop
                     (actual_avg_yields_of (sr_daily_yields simulation_results))
                     baseline_yields of
                Inl e \<Rightarrow> Inl e
              | Inr yield_improvement \<Rightarrow>
                  if length baseline_yields = 0 then Inl ZeroDivisionError
                  else
                   (let avg_excess_yield =
                          sum_list (map (\<lambda>(asset, v). max 0 v) yield_improvement)
                            / real (length baseline_yields)
                    in case column_sum ev_transaction_cost rebalance_events of
                         Inl e \<Rightarrow> Inl e
                       | Inr total_transaction_costs \<Rightarrow>
                           (case column_sum ev_gas_cost rebalance_events of
                              Inl e \<Rightarrow> Inl e
                            | Inr total_gas_costs \<Rightarrow>
                                Inr \<lparr> br_total_return = total_return,
                                      br_annualized_return = annualized_return,
                                      br_volatility = volatility,
                                      br_sharpe_ratio = sharpe_ratio,
                                      br_max_drawdown = max_drawdown,
                                      br_calmar_ratio = calmar_ratio,
                                      br_total_rebalances = length rebalance_events,
                                      br_avg_excess_yield = avg_excess_yield,
                                      br_yield_improvement = yield_improvement,
                                      br_total_transaction_costs = total_transaction_costs,
                                      br_total_gas_costs = total_gas_costs,
                                      br_daily_returns = daily_returns,
                                      br_cumulative_returns = cumulative_returns,
                                      br_rebalance_events = rebalance_events \<rparr>))))"

text \<open>\<^verbatim>\<open>PerformanceMetrics.max_drawdown\<close> of the metrics module.\<close>

definition pm_max_drawdown :: "real list \<Rightarrow> real" where
  "pm_max_drawdown returns =
     (if length returns = 0 then 0
      else (let cumulative = cumprod (map (\<lambda>r. 1 + r) returns)
            in \<bar>Min (set (drawdown_series cumulative))\<bar>))"

subsection \<open>\<^verbatim>\<open>CCYOEBacktester\<close> and \<^verbatim>\<open>run_backtest\<close>\<close>

record CCYOEBacktester =
  bt_data :: "yield_row list"
  bt_config :: OptimizationConfig

text \<open>\<^verbatim>\<open>_prepare_data\<close> sorts the rows by date. (The order pandas gives to rows of
  equal date is not fixed by its default sorting algorithm; the model keeps them in
  their given order.)\<close>

definition prepare_data :: "yield_row list \<Rightarrow> yield_row list" where
  "prepare_data data = sort_key row_date data"

definition CCYOEBacktester_init :: "yield_row list \<Rightarrow> OptimizationConfig \<Rightarrow> CCYOEBacktester" where
  "CCYOEBacktester_init data config = \<lparr> bt_data = prepare_data data, bt_config = config \<rparr>"

definition filter_data :: "CCYOEBacktester \<Rightarrow> timestamp \<Rightarrow> timestamp \<Rightarrow> yield_row list" where
  "filter_data self start end = filter (\<lambda>r. row_date r \<ge> start \<and> row_date r \<le> end) (bt_data self)"

definition default_portfolio :: "real dict" where
  "default_portfolio = [(''cmBTC'', 10), (''cmUSD'', 25), (''cmBRL'', 40)]"

text \<open>The caller passes a reference to its own dictionary, or nothing; in the second
  case the default dictionary is allocated here.\<close>

definition run_backtest ::
  "CCYOEBacktester \<Rightarrow> heap \<Rightarrow> timestamp \<Rightarrow> timestamp \<Rightarrow> ref option
     \<Rightarrow> heap \<times> (error + BacktestResults)" where
  "run_backtest self h start_date end_date initial_portfolio =
     (let backtest_data = filter_data self start_date end_date
      in if length backtest_data = 0 then (h, Inl ValueError)
         else
          (let (h1, p) = (case initial_portfolio of
                            None \<Rightarrow> (h @ [default_portfolio], length h)
                          | Some r \<Rightarrow> (h, r))
           in case run_simulation (bt_config self) h1 backtest_data p of
                (h2, Inl e) \<Rightarrow> (h2, Inl e)
              | (h2, Inr simulation_results) \<Rightarrow>
                  (h2, calculate_results (bt_config self) simulation_results)))"

subsection \<open>\<^verbatim>\<open>YieldOptimizer\<close>: the objective function and \<^verbatim>\<open>_optimize_scipy\<close>\<close>

text \<open>A float that may be infinite or \<^verbatim>\<open>NaN\<close>.\<close>

datatype pyfloat = Fin real | PosInf | NegInf | NaN

fun pyfloat_neg :: "pyfloat \<Rightarrow> pyfloat" where
  "pyfloat_neg (Fin x) = Fin (- x)"
| "pyfloat_neg PosInf = NegInf"
| "pyfloat_neg NegInf = PosInf"
| "pyfloat_neg NaN = NaN"

fun pyfloat_less :: "pyfloat \<Rightarrow> pyfloat \<Rightarrow> bool" where
  "pyfloat_less (Fin a) (Fin b) = (a < b)"
| "pyfloat_less (Fin a) PosInf = True"
| "pyfloat_less NegInf (Fin b) = True"
| "pyfloat_less NegInf PosInf = True"
| "pyfloat_less _ _ = False"

text \<open>The two attributes of the optimizer that the objective function writes.\<close>

record optimizer_state =
  cache :: "pyfloat dict"
  evaluation_count :: nat

definition params_to_config :: "OptimizationConfig option \<Rightarrow> real list \<Rightarrow> OptimizationConfig" where
  "params_to_config base_config params =
     (let config = (case base_config of Some c \<Rightarrow> c | None \<Rightarrow> default_config);
          config = (if length params \<ge> 4
                    then config\<lparr> under_supplied_allocation := params ! 0,
                                  strategic_growth_allocation := params ! 1,
                                  proportional_allocation := params ! 2,
                                  treasury_allocation := params ! 3 \<rparr>
                    else config);
          config = (if length params \<ge> 5 then config\<lparr>rebalance_threshold := params ! 4\<rparr>
                    else config);
          config = (if length params \<ge> 6 then config\<lparr>transaction_cost := params ! 5\<rparr>
                    else config)
      in config)"

text \<open>\<^verbatim>\<open>hasattr(results, objective)\<close> and \<^verbatim>\<open>getattr(results, objective)\<close> on the
  numeric fields of the bundle above; \<open>None\<close> is a name that is no attribute.\<close>

definition result_attr :: "string \<Rightarrow> BacktestResults \<Rightarrow> pyfloat option" where
  "result_attr name r =
     (if name = ''total_return'' then Some (Fin (br_total_return r))
      else if name = ''annualized_return'' then Some (Fin (br_annualized_return r))
      else if name = ''volatility''
        then Some (case br_volatility r of Some v \<Rightarrow> Fin v | None \<Rightarrow> NaN)
      else if name = ''sharpe_ratio'' then Some (Fin (br_sharpe_ratio r))
      else if name = ''max_drawdown'' then Some (Fin (br_max_drawdown r))
      else if name = ''calmar_ratio'' then Some (Fin (br_calmar_ratio r))
      else if name = ''total_rebalances'' then Some (Fin (real (br_total_rebalances r)))
      else None)"

definition maximization_objectives :: "string list" where
  "maximization_objectives =
     [''total_return'', ''annualized_return'', ''sharpe_ratio'', ''calmar_ratio'']"

text \<open>The closure \<^verbatim>\<open>objective_function(params)\<close>. Its result is \<open>Inl\<close> when an
  exception leaves it and \<open>Inr\<close> when it returns; \<open>str\<close> is Python's conversion of the
  parameter vector to the cache key. The backtest allocates its own portfolio, so it
  runs on an empty store.\<close>

definition objective_function ::
  "(real list \<Rightarrow> string) \<Rightarrow> yield_row list \<Rightarrow> OptimizationConfig option \<Rightarrow> string
     \<Rightarrow> timestamp \<Rightarrow> timestamp \<Rightarrow> real list \<Rightarrow> optimizer_state
     \<Rightarrow> (error + pyfloat) \<times> optimizer_state" where
  "objective_function str data base_config objective start_date end_date params self =
     (let config = params_to_config base_config params;
          cache_key = str params
      in case map_of (cache self) cache_key of
           Some v \<Rightarrow> (Inr v, self)
         | None \<Rightarrow>
             (let backtester = CCYOEBacktester_init data config
              in case snd (run_backtest backtester [] start_date end_date None) of
                   Inl e \<Rightarrow> (Inr PosInf, self)
                 | Inr results \<Rightarrow>
                     (case result_attr objective results of
                        None \<Rightarrow> (Inr PosInf, self)
                      | Some v \<Rightarrow>
                          (let v' = (if objective \<in> set maximization_objectives
                                     then pyfloat_neg v else v)
                           in (Inr v',
                               self\<lparr> cache := AList.update cache_key v' (cache self),
                                     evaluation_count := evaluation_count self + 1 \<rparr>)))))"

text \<open>What \<^verbatim>\<open>scipy.optimize.minimize\<close> returns.\<close>

record OptimizeResult =
  res_x :: "real list"
  res_fun :: pyfloat
  res_success :: bool
  res_nit :: nat
  res_nfev :: nat

record constraint =
  ctype :: string
  cfun :: "real list \<Rightarrow> real"

record OptimizationResult =
  optimal_params :: "real dict"
  optimal_value :: pyfloat
  optimization_method :: string
  convergence_status :: string
  iterations :: nat
  function_evaluations :: nat

type_synonym objective = "real list \<Rightarrow> optimizer_state \<Rightarrow> (error + pyfloat) \<times> optimizer_state"

text \<open>\<^verbatim>\<open>scipy.optimize.minimize\<close> is a library routine; it is a parameter of the
  model: given the method, the objective, the start vector, the bounds, the constraints
  (if any are passed) and the optimizer's state, it raises or returns a result, and
  leaves a state behind.\<close>

type_synonym minimizer =
  "string \<Rightarrow> objective \<Rightarrow> real list \<Rightarrow> (real \<times> real) list \<Rightarrow> constraint list option
     \<Rightarrow> optimizer_state \<Rightarrow> (error + OptimizeResult) \<times> optimizer_state"

definition config_to_params :: "OptimizationConfig \<Rightarrow> real list" where
  "config_to_params config =
     [under_supplied_allocation config, strategic_growth_allocation config,
      proportional_allocation config, treasury_allocation config,
      rebalance_threshold config, transaction_cost config]"

definition param_names :: "string list" where
  "param_names =
     [''under_supplied_allocation'', ''strategic_growth_allocation'',
      ''proportional_allocation'', ''treasury_allocation'',
      ''rebalance_threshold'', ''transaction_cost'']"

text \<open>The loop \<^verbatim>\<open>for method in methods\<close> with its \<^verbatim>\<open>try\<close>/\<^verbatim>\<open>except\<close>: an
  exception of the minimizer is caught and the loop continues.\<close>

fun methods_loop ::
  "minimizer \<Rightarrow> objective \<Rightarrow> real list \<Rightarrow> (real \<times> real) list \<Rightarrow> constraint list
     \<Rightarrow> string list \<Rightarrow> OptimizeResult option \<times> pyfloat \<times> optimizer_state
     \<Rightarrow> OptimizeResult option \<times> pyfloat \<times> optimizer_state" where
  "methods_loop minimize objective_func x0 bounds constraints [] s = s"
| "methods_loop minimize objective_func x0 bounds constraints (method # rest)
       (best_result, best_value, self) =
     (if method = ''SLSQP''
      then (case minimize method objective_func x0 bounds (Some constraints) self of
              (Inl e, self') \<Rightarrow>
                methods_loop minimize objective_func x0 bounds constraints rest
                  (best_result, best_value, self')
            | (Inr result, self') \<Rightarrow>
                if pyfloat_less (res_fun result) best_value
                then methods_loop minimize objective_func x0 bounds constraints rest
                       (Some result, res_fun result, self')
                else methods_loop minimize objective_func x0 bounds constraints rest
                       (best_result, best_value, self'))
      else if constraints \<noteq> []
      then methods_loop minimize objective_func x0 bounds constraints rest
             (best_result, best_value, self)
      else (case minimize method objective_func x0 bounds None self of
              (Inl e, self') \<Rightarrow>
                methods_loop minimize objective_func x0 bounds constraints rest
                  (best_result, best_value, self')
            | (Inr result, self') \<Rightarrow>
                if pyfloat_less (res_fun result) best_value
                then methods_loop minimize objective_func x0 bounds constraints rest
                       (Some result, res_fun result, self')
                else methods_loop minimize objective_func x0 bounds constraints rest
                       (best_result, best_value, self')))"

text \<open>The initial guess \<^verbatim>\<open>x0\<close>.\<close>

definition initial_guess :: "OptimizationConfig option \<Rightarrow> real list" where
  "initial_guess base_config =
     (case base_config of
        Some c \<Rightarrow> config_to_params c
      | None \<Rightarrow> [4 / 10, 3 / 10, 2 / 10, 1 / 10, 100, 5])"

definition optimize_scipy ::
  "minimizer \<Rightarrow> OptimizationConfig option \<Rightarrow> objective \<Rightarrow> constraint list
     \<Rightarrow> (real \<times> real) list \<Rightarrow> optimizer_state
     \<Rightarrow> (error + OptimizationResult) \<times> optimizer_state" where
  "optimize_scipy minimize base_config objective_func constraints bounds self =
     (let x0 = initial_guess base_config
      in case methods_loop minimize objective_func x0 bounds constraints
                [''SLSQP'', ''L-BFGS-B''] (None, PosInf, self) of
           (None, best_value, self') \<Rightarrow> (Inl RuntimeError, self')
         | (Some best_result, best_value, self') \<Rightarrow>
             (Inr \<lparr> optimal_params = zip param_names (res_x best_result),
                     optimal_value = (if res_fun best_result \<noteq> PosInf
                                      then pyfloat_neg (res_fun best_result)
                                      else res_fun best_result),
                     optimization_method = ''scipy'',
                     convergence_status =
                       (if res_success best_result then ''success'' else ''failed''),
                     iterations = res_nit best_result,
                     function_evaluations = res_nfev best_result \<rparr>, self'))"

subsection \<open>The statements of the specification, and example inputs\<close>

text \<open>The trigger in the words of the specification: the total excess is the sum over
  the assets of \<open>max(0, yield - target_yield)\<close>; rebalancing fires iff it reaches the
  threshold and either no rebalance has happened or at least
  \<open>min_rebalance_interval\<close> days have passed since the last one.\<close>

definition spec_total_excess :: "OptimizationConfig \<Rightarrow> yield_row \<Rightarrow> real" where
  "spec_total_excess cfg row =
     max 0 (row_cmBTC row - dict_get_default (target_yields cfg) ''cmBTC'' 0)
   + max 0 (row_cmUSD row - dict_get_default (target_yields cfg) ''cmUSD'' 0)
   + max 0 (row_cmBRL row - dict_get_default (target_yields cfg) ''cmBRL'' 0)"

definition spec_fires :: "OptimizationConfig \<Rightarrow> timestamp option \<Rightarrow> yield_row \<Rightarrow> bool" where
  "spec_fires cfg last_date row \<longleftrightarrow>
     spec_total_excess cfg row \<ge> rebalance_threshold cfg
   \<and> (case last_date of
         None \<Rightarrow> True
       | Some d \<Rightarrow> row_date row - d \<ge> min_rebalance_interval cfg * ns_per_day)"

text \<open>What an event accounts for: the per-asset redistribution amounts and the
  treasury amount.\<close>

definition event_accounted :: "OptimizationConfig \<Rightarrow> rebalance_event \<Rightarrow> real" where
  "event_accounted cfg e =
     sum_values (ev_redistribution e) + treasury_amount cfg (ev_total_excess_yield e)"

text \<open>An item of the portfolio is eligible for the strategic-growth bucket, as the
  program decides it.\<close>

definition eligible :: "OptimizationConfig \<Rightarrow> string \<times> real \<Rightarrow> bool" where
  "eligible cfg item =
     (case utilization cfg (fst item) (snd item) of Inr u \<Rightarrow> u > 8 / 10 | Inl e \<Rightarrow> False)"

text \<open>The invariant of the simulation loop behind the spacing of the events: the dated
  events so far are pairwise at least \<open>m\<close> days apart, none is dated after the last
  rebalance date, and the last rebalance date is not after any row still to come.\<close>

definition events_inv :: "int \<Rightarrow> sim_state \<Rightarrow> yield_row list \<Rightarrow> bool" where
  "events_inv m st rows \<longleftrightarrow>
     (\<forall>i j ei ej. i < j \<and> j < length (rebalance_events st)
         \<and> rebalance_events st ! i = Some ei \<and> rebalance_events st ! j = Some ej
         \<longrightarrow> m \<le> days_between (ev_date ej) (ev_date ei))
   \<and> (\<forall>e. Some e \<in> set (rebalance_events st)
         \<longrightarrow> (\<exists>d. last_rebalance_date st = Some d \<and> ev_date e \<le> d))
   \<and> (\<forall>d. last_rebalance_date st = Some d \<longrightarrow> (\<forall>r \<in> set rows. d \<le> row_date r))"

text \<open>A day with every yield at its default target, a day with 100 basis points of
  excess on two assets, three days with a negative shock on the second, and three days
  with excess on the first and the third.\<close>

definition target_row :: yield_row where
  "target_row = \<lparr>row_date = 0, row_cmBTC = 500, row_cmUSD = 1400, row_cmBRL = 2000\<rparr>"

definition excess_row :: yield_row where
  "excess_row = \<lparr>row_date = 0, row_cmBTC = 600, row_cmUSD = 1400, row_cmBRL = 2100\<rparr>"

definition shock_data :: "yield_row list" where
  "shock_data =
     [\<lparr>row_date = 0, row_cmBTC = 500, row_cmUSD = 1400, row_cmBRL = 2000\<rparr>,
      \<lparr>row_date = 86400000000000, row_cmBTC = - 3650, row_cmUSD = - 3650, row_cmBRL = - 3650\<rparr>,
      \<lparr>row_date = 172800000000000, row_cmBTC = 500, row_cmUSD = 1400, row_cmBRL = 2000\<rparr>]"

definition excess_data :: "yield_row list" where
  "excess_data =
     [\<lparr>row_date = 0, row_cmBTC = 600, row_cmUSD = 1400, row_cmBRL = 2100\<rparr>,
      \<lparr>row_date = 86400000000000, row_cmBTC = 500, row_cmUSD = 1400, row_cmBRL = 2000\<rparr>,
      \<lparr>row_date = 172800000000000, row_cmBTC = 600, row_cmUSD = 1400, row_cmBRL = 2100\<rparr>]"

text \<open>One loop iteration on the day with excess, from the default portfolio, and the
  event it records; a simulation of that one day; a backtest over the three days with
  excess.\<close>

definition excess_step :: "sim_state \<times> error option" where
  "excess_step = loop_body default_config 0 excess_row (init_state [default_portfolio])"

definition excess_event :: rebalance_event where
  "excess_event = the (last (rebalance_events (fst excess_step)))"

definition excess_sim :: "heap \<times> (error + simulation_results)" where
  "excess_sim = run_simulation default_config [default_portfolio] [excess_row] 0"

definition excess_run :: "heap \<times> (error + BacktestResults)" where
  "excess_run =
     run_backtest (CCYOEBacktester_init excess_data default_config) [default_portfolio]
       0 172800000000000 (Some 0)"

text \<open>A backtest over the three days with the negative shock; a minimizer that always
  raises and one that returns its start vector; a key function and a fresh optimizer.\<close>

definition shock_run :: "heap \<times> (error + BacktestResults)" where
  "shock_run =
     run_backtest (CCYOEBacktester_init shock_data default_config) [] 0 172800000000000 None"

definition failing_minimizer :: minimizer where
  "failing_minimizer method f x0 bounds constraints self = (Inl RuntimeError, self)"

definition echo_minimizer :: minimizer where
  "echo_minimizer method f x0 bounds constraints self =
     (Inr \<lparr> res_x = x0, res_fun = Fin 0, res_success = True, res_nit = 1, res_nfev = 1 \<rparr>, self)"

definition empty_str :: "real list \<Rightarrow> string" where
  "empty_str params = []"

definition empty_optimizer :: optimizer_state where
  "empty_optimizer = \<lparr> cache = [], evaluation_count = 0 \<rparr>"

section \<open>Evaluation rules and shared lemmas\<close>

lemmas sim_defs =
  loop_body_def trigger_phase_def check_rebalance_conditions_def rebalance_phase_def
  execute_rebalancing_def calculate_yield_redistribution_def record_daily_value_def
  calculate_portfolio_value_def row_yields_def assets_def under_supplied_assets_def
  utilization_def dict_add_def dict_get_default_def sum_values_def under_supplied_amount_def
  strategic_amount_def proportional_amount_def treasury_amount_def default_config_def
  default_target_yields_def default_supply_caps_def default_portfolio_def init_state_def
  days_between_def ns_per_day_def Let_def run_simulation_def deepcopy_def run_backtest_def
  filter_data_def CCYOEBacktester_init_def prepare_data_def target_row_def excess_row_def
  shock_data_def spec_fires_def spec_total_excess_def event_accounted_def excess_data_def
  excess_step_def excess_event_def excess_run_def shock_run_def


lemma excess_loop_total:
  "snd (excess_loop cfg ys (e, t)) =
     t + sum_list (map (\<lambda>(a, y). max 0 (y - dict_get_default (target_yields cfg) a 0)) ys)"
  by (induction ys arbitrary: e t) (auto simp: Let_def)

lemma int_le_div_iff:
  fixes a b m :: int
  assumes "0 < b"
  shows "m \<le> a div b \<longleftrightarrow> m * b \<le> a"
proof
  assume "m \<le> a div b"
  then have "m * b \<le> (a div b) * b" using assms by simp
  also have "\<dots> \<le> a"
  proof -
    have "b * (a div b) + a mod b = a" by simp
    moreover have "0 \<le> a mod b" using assms by simp
    ultimately have "b * (a div b) \<le> a" by linarith
    then show ?thesis by (simp add: mult.commute)
  qed
  finally show "m * b \<le> a" .
next
  assume "m * b \<le> a"
  then have "(m * b) div b \<le> a div b" using assms by (rule zdiv_mono1)
  then show "m \<le> a div b" using assms by simp
qed

lemma days_between_ge:
  "days_between t d \<ge> m \<longleftrightarrow> t - d \<ge> m * ns_per_day"
  unfolding days_between_def by (rule int_le_div_iff) (simp add: ns_per_day_def)

lemma check_fires:
  "fst (check_rebalance_conditions cfg (row_yields row) p last_date (row_date row))
     = spec_fires cfg last_date row"
  using excess_loop_total [of cfg "row_yields row" "[]" 0]
  by (auto simp: check_rebalance_conditions_def spec_fires_def spec_total_excess_def
        row_yields_def days_between_ge split_beta Let_def split: option.splits)

lemma record_daily_value_events:
  "record_daily_value cp d ys st = (st', err) \<Longrightarrow>
     rebalance_events st' = rebalance_events st \<and> last_rebalance_date st' = last_rebalance_date st
     \<and> heap st' = heap st"
  by (auto simp: record_daily_value_def Let_def split: option.splits)

lemma rebalance_phase_events:
  "rebalance_phase cfg cp ex ys d st = (st', None) \<Longrightarrow>
     (\<exists>ev. rebalance_events st' = rebalance_events st @ [ev]) \<and> last_rebalance_date st' = Some d"
  by (auto simp: rebalance_phase_def split: prod.splits sum.splits)

lemma loop_body_decomp:
  assumes "loop_body cfg cp row st = (st', None)"
  shows "\<exists>st2 st3 h'.
           trigger_phase cfg cp row st = (st2, None)
         \<and> record_daily_value cp (row_date row) (row_yields row) st2 = (st3, None)
         \<and> compound_loop cp (row_yields row) assets (heap st3) = (h', None)
         \<and> st' = st3\<lparr>heap := h'\<rparr>"
  using assms by (auto simp: loop_body_def split: prod.splits option.splits)

lemma trigger_phase_fires:
  assumes "trigger_phase cfg cp row st = (st2, None)"
  shows "if spec_fires cfg (last_rebalance_date st) row
         then (\<exists>ev. rebalance_events st2 = rebalance_events st @ [ev])
              \<and> last_rebalance_date st2 = Some (row_date row)
         else rebalance_events st2 = rebalance_events st
              \<and> last_rebalance_date st2 = last_rebalance_date st"
  using assms check_fires [of cfg row "heap st ! cp" "last_rebalance_date st"]
  by (auto simp: trigger_phase_def Let_def split: if_splits prod.splits
        dest!: rebalance_phase_events)

lemma loop_body_fires:
  assumes "loop_body cfg cp row st = (st', None)"
  shows "if spec_fires cfg (last_rebalance_date st) row
         then (\<exists>ev. rebalance_events st' = rebalance_events st @ [ev])
              \<and> last_rebalance_date st' = Some (row_date row)
         else rebalance_events st' = rebalance_events st
              \<and> last_rebalance_date st' = last_rebalance_date st"
proof -
  from loop_body_decomp [OF assms] obtain st2 st3 h' where
    a: "trigger_phase cfg cp row st = (st2, None)" and
    r: "record_daily_value cp (row_date row) (row_yields row) st2 = (st3, None)" and
    s: "st' = st3\<lparr>heap := h'\<rparr>" by blast
  from record_daily_value_events [OF r] s
  have "rebalance_events st' = rebalance_events st2"
       "last_rebalance_date st' = last_rebalance_date st2"
    by simp_all
  with trigger_phase_fires [OF a] show ?thesis by simp
qed

lemma boost_loop_length:
  "boost_loop cfg p rs (h, imp, tc) = ((h', imp', tc'), err) \<Longrightarrow> length h' = length h"
  by (induction rs arbitrary: h imp tc) (auto simp: Let_def split: if_splits option.splits)

lemma execute_rebalancing_length:
  "execute_rebalancing cfg h p ex ys d = (h', out) \<Longrightarrow> length h' = length h"
  by (auto simp: execute_rebalancing_def Let_def
        split: if_splits sum.splits prod.splits option.splits dest: boost_loop_length)

lemma trigger_phase_frame:
  "trigger_phase cfg cp row st = (st2, err) \<Longrightarrow>
     length (heap st2) = length (heap st) \<and> daily_values st2 = daily_values st"
  by (auto simp: trigger_phase_def rebalance_phase_def Let_def
        split: if_splits sum.splits prod.splits dest: execute_rebalancing_length)

lemma compound_loop_lookup:
  assumes "compound_loop cp ys as h = (h', None)" "cp < length h" "distinct as"
  shows "length h' = length h \<and>
         (\<forall>a. map_of (h' ! cp) a =
            (if a \<in> set as
             then (case (map_of (h ! cp) a, map_of ys a) of
                     (Some b, Some y) \<Rightarrow> Some (b * (1 + y / 10000 / 365)) | _ \<Rightarrow> None)
             else map_of (h ! cp) a))"
  using assms
proof (induction as arbitrary: h)
  case Nil
  then show ?case by simp
next
  case (Cons a as)
  from Cons.prems(1) obtain y b where
    y: "map_of ys a = Some y" and b: "map_of (h ! cp) a = Some b" and
    rest: "compound_loop cp ys as (h[cp := AList.update a (b * (1 + y / 10000 / 365)) (h ! cp)])
             = (h', None)"
    by (auto simp: Let_def split: option.splits)
  from Cons.IH [OF rest] Cons.prems(2,3) y b show ?case
    by (auto simp: update_conv' split: option.splits)
qed

lemma boost_loop_frame:
  "boost_loop cfg p rs (h, imp, tc) = ((h', imp', tc'), err) \<Longrightarrow> r \<noteq> p \<Longrightarrow> h' ! r = h ! r"
  by (induction rs arbitrary: h imp tc) (auto simp: Let_def split: if_splits option.splits)

lemma execute_rebalancing_frame:
  "execute_rebalancing cfg h p ex ys d = (h', out) \<Longrightarrow> r \<noteq> p \<Longrightarrow> h' ! r = h ! r"
  by (auto simp: execute_rebalancing_def Let_def
        split: if_splits sum.splits prod.splits option.splits dest: boost_loop_frame)

lemma trigger_phase_heap_frame:
  "trigger_phase cfg cp row st = (st2, err) \<Longrightarrow> r \<noteq> cp \<Longrightarrow> heap st2 ! r = heap st ! r"
  by (auto simp: trigger_phase_def rebalance_phase_def Let_def
        split: if_splits sum.splits prod.splits dest: execute_rebalancing_frame)

lemma compound_loop_frame:
  "compound_loop cp ys as h = (h', err) \<Longrightarrow>
     length h' = length h \<and> (r \<noteq> cp \<longrightarrow> h' ! r = h ! r)"
  by (induction as arbitrary: h) (auto simp: Let_def split: option.splits)

lemma loop_body_frame:
  assumes "loop_body cfg cp row st = (st', err)"
  shows "length (heap st') = length (heap st) \<and> (r \<noteq> cp \<longrightarrow> heap st' ! r = heap st ! r)"
proof -
  obtain st2 e2 where t: "trigger_phase cfg cp row st = (st2, e2)" by fastforce
  obtain st3 e3 where rd: "record_daily_value cp (row_date row) (row_yields row) st2 = (st3, e3)"
    by fastforce
  obtain h4 e4 where c: "compound_loop cp (row_yields row) assets (heap st3) = (h4, e4)"
    by fastforce
  from trigger_phase_frame [OF t] trigger_phase_heap_frame [OF t]
  have 2: "length (heap st2) = length (heap st)" "r \<noteq> cp \<Longrightarrow> heap st2 ! r = heap st ! r"
    by simp_all
  from record_daily_value_events [OF rd] have 3: "heap st3 = heap st2" by simp
  from compound_loop_frame [OF c]
  have 4: "length h4 = length (heap st3)" "r \<noteq> cp \<Longrightarrow> h4 ! r = heap st3 ! r" by simp_all
  from assms t rd c have "st' = st2 \<or> st' = st3 \<or> st' = st3\<lparr>heap := h4\<rparr>"
    by (auto simp: loop_body_def split: option.splits)
  with 2 3 4 show ?thesis by auto
qed

lemma sim_loop_frame:
  "sim_loop cfg cp rows st = (st', err) \<Longrightarrow>
     length (heap st') = length (heap st) \<and> (r \<noteq> cp \<longrightarrow> heap st' ! r = heap st ! r)"
proof (induction rows arbitrary: st)
  case Nil
  then show ?case by simp
next
  case (Cons row rows)
  obtain st1 e1 where b: "loop_body cfg cp row st = (st1, e1)" by fastforce
  show ?case
  proof (cases e1)
    case None
    with Cons.prems b have "sim_loop cfg cp rows st1 = (st', err)" by simp
    from Cons.IH [OF this] loop_body_frame [OF b] show ?thesis by simp
  next
    case (Some e)
    with Cons.prems b have "st' = st1" by simp
    with loop_body_frame [OF b] show ?thesis by simp
  qed
qed

lemma run_simulation_frame:
  assumes "run_simulation cfg h data p = (h', out)" and "r < length h"
  shows "h' ! r = h ! r"
proof -
  obtain st err where l: "sim_loop cfg (length h) data (init_state (h @ [h ! p])) = (st, err)"
    by fastforce
  with assms(1) have h': "h' = heap st"
    by (auto simp: run_simulation_def deepcopy_def split: option.splits)
  from sim_loop_frame [OF l, of r] assms(2)
  have "heap st ! r = (h @ [h ! p]) ! r" by (simp add: init_state_def)
  with h' assms(2) show ?thesis by (simp add: nth_append)
qed

lemma execute_rebalancing_date:
  "execute_rebalancing cfg h p ex ys d = (h', Inr (Some e)) \<Longrightarrow> ev_date e = d"
  by (auto simp: execute_rebalancing_def Let_def
        split: if_splits sum.splits prod.splits option.splits)

lemma trigger_phase_event_date:
  assumes "trigger_phase cfg cp row st = (st2, None)"
      and "rebalance_events st2 = rebalance_events st @ [Some e]"
  shows "ev_date e = row_date row"
  using assms
  by (auto simp: trigger_phase_def rebalance_phase_def Let_def
        split: if_splits sum.splits prod.splits dest: execute_rebalancing_date)

lemma loop_body_event_date:
  assumes "loop_body cfg cp row st = (st', None)"
      and "rebalance_events st' = rebalance_events st @ [Some e]"
  shows "ev_date e = row_date row"
proof -
  from loop_body_decomp [OF assms(1)] obtain st2 st3 h' where
    a: "trigger_phase cfg cp row st = (st2, None)" and
    r: "record_daily_value cp (row_date row) (row_yields row) st2 = (st3, None)" and
    s: "st' = st3\<lparr>heap := h'\<rparr>" by blast
  from record_daily_value_events [OF r] s assms(2)
  have "rebalance_events st2 = rebalance_events st @ [Some e]" by simp
  from trigger_phase_event_date [OF a this] show ?thesis .
qed

lemma days_between_mono:
  "b \<le> c \<Longrightarrow> days_between a c \<le> days_between a b"
  unfolding days_between_def by (rule zdiv_mono1) (simp_all add: ns_per_day_def)

lemma loop_body_events_inv:
  assumes inv: "events_inv (min_rebalance_interval cfg) st (row # rows)"
      and srt: "sorted (map row_date (row # rows))"
      and lb: "loop_body cfg cp row st = (st', None)"
  shows "events_inv (min_rebalance_interval cfg) st' rows"
proof (cases "spec_fires cfg (last_rebalance_date st) row")
  case False
  with loop_body_fires [OF lb]
  have "rebalance_events st' = rebalance_events st"
       "last_rebalance_date st' = last_rebalance_date st" by simp_all
  with inv show ?thesis by (simp add: events_inv_def)
next
  case True
  with loop_body_fires [OF lb] obtain ev where
    evs: "rebalance_events st' = rebalance_events st @ [ev]" and
    last: "last_rebalance_date st' = Some (row_date row)" by auto
  let ?m = "min_rebalance_interval cfg"
  let ?t = "row_date row"
  have old_le: "ev_date e \<le> ?t" if "Some e \<in> set (rebalance_events st)" for e
    using inv that by (fastforce simp: events_inv_def)
  have new_date: "ev_date e = ?t" if "ev = Some e" for e
    using loop_body_event_date [OF lb] evs that by simp
  have gap: "?m \<le> days_between ?t (ev_date e)" if "Some e \<in> set (rebalance_events st)" for e
  proof -
    from inv that obtain d where d: "last_rebalance_date st = Some d" "ev_date e \<le> d"
      by (auto simp: events_inv_def)
    with True have "?m \<le> days_between ?t d" by (simp add: spec_fires_def days_between_ge)
    also have "\<dots> \<le> days_between ?t (ev_date e)" using d(2) by (rule days_between_mono)
    finally show ?thesis .
  qed
  have 1: "?m \<le> days_between (ev_date ej) (ev_date ei)"
    if "i < j" "j < length (rebalance_events st')"
       "rebalance_events st' ! i = Some ei" "rebalance_events st' ! j = Some ej" for i j ei ej
  proof (cases "j < length (rebalance_events st)")
    case True
    with that evs inv show ?thesis by (simp add: events_inv_def nth_append)
  next
    case False
    with that evs have j: "j = length (rebalance_events st)" by simp
    with that evs have "ev = Some ej" by (simp add: nth_append)
    then have ej: "ev_date ej = ?t" by (rule new_date)
    from that j evs have "rebalance_events st ! i = Some ei" "i < length (rebalance_events st)"
      by (simp_all add: nth_append)
    then have "Some ei \<in> set (rebalance_events st)" by (metis nth_mem)
    from gap [OF this] ej show ?thesis by simp
  qed
  have 2: "\<exists>d. last_rebalance_date st' = Some d \<and> ev_date e \<le> d"
    if "Some e \<in> set (rebalance_events st')" for e
    using that evs last old_le new_date by auto
  have 3: "\<forall>r \<in> set rows. d \<le> row_date r" if "last_rebalance_date st' = Some d" for d
    using that last srt by auto
  from 1 2 3 show ?thesis unfolding events_inv_def by blast
qed

lemma sim_loop_events_inv:
  assumes "events_inv (min_rebalance_interval cfg) st rows"
      and "sorted (map row_date rows)"
      and "sim_loop cfg cp rows st = (st', None)"
  shows "events_inv (min_rebalance_interval cfg) st' []"
  using assms
proof (induction rows arbitrary: st)
  case Nil
  then show ?case by simp
next
  case (Cons row rows)
  from Cons.prems(3) obtain st1 where
    b: "loop_body cfg cp row st = (st1, None)" and l: "sim_loop cfg cp rows st1 = (st', None)"
    by (auto split: prod.splits option.splits)
  from loop_body_events_inv [OF Cons.prems(1,2) b]
  have "events_inv (min_rebalance_interval cfg) st1 rows" .
  moreover from Cons.prems(2) have "sorted (map row_date rows)" by simp
  ultimately show ?case using l by (rule Cons.IH)
qed

lemma run_simulation_spaced:
  assumes "run_simulation cfg h data p = (h', Inr res)" and "sorted (map row_date data)"
      and "i < j" "j < length (sr_rebalance_events res)"
      and "sr_rebalance_events res ! i = Some ei" "sr_rebalance_events res ! j = Some ej"
  shows "min_rebalance_interval cfg \<le> days_between (ev_date ej) (ev_date ei)"
proof -
  from assms(1) obtain st where
    l: "sim_loop cfg (length h) data (init_state (h @ [h ! p])) = (st, None)" and
    r: "sr_rebalance_events res = rebalance_events st"
    by (auto simp: run_simulation_def deepcopy_def split: prod.splits option.splits)
  have "events_inv (min_rebalance_interval cfg) (init_state (h @ [h ! p])) data"
    by (simp add: events_inv_def init_state_def)
  from sim_loop_events_inv [OF this assms(2) l] assms(3-) r show ?thesis
    by (simp add: events_inv_def)
qed

lemma calculate_results_events:
  "calculate_results cfg sim = Inr res \<Longrightarrow> br_rebalance_events res = sr_rebalance_events sim"
  by (auto simp: calculate_results_def Let_def split: if_splits sum.splits)

lemma sum_values_update:
  "distinct (map fst d) \<Longrightarrow> map_of d k = Some v \<Longrightarrow>
     sum_values (AList.update k w d) = sum_values d - v + w"
  by (induction d) (auto simp: sum_values_def dest: map_of_SomeD)

lemma update_existing_keys:
  "map_of d k = Some v \<Longrightarrow> map fst (AList.update k w d) = map fst d"
  by (induction d) (auto split: if_splits)

lemma dict_add_sum:
  assumes "dict_add d k x = Inr d'" "distinct (map fst d)"
  shows "sum_values d' = sum_values d + x \<and> map fst d' = map fst d \<and> k \<in> set (map fst d)"
proof -
  from assms(1) obtain v where v: "map_of d k = Some v" and d': "d' = AList.update k (v + x) d"
    by (auto simp: dict_add_def split: option.splits)
  from v have "(k, v) \<in> set d" by (rule map_of_SomeD)
  then have "k \<in> set (map fst d)" by force
  with v d' assms(2) show ?thesis by (simp add: sum_values_update update_existing_keys)
qed

lemma under_supplied_loop_sum:
  assumes "under_supplied_loop amount as red = Inr red'" "distinct (map fst red)"
  shows "sum_values red' = sum_values red
            + (if amount > 0
               then real (length as) * (amount / real (length under_supplied_assets)) else 0)
       \<and> map fst red' = map fst red"
  using assms
proof (induction as arbitrary: red)
  case Nil
  then show ?case by simp
next
  case (Cons a as)
  show ?case
  proof (cases "amount > 0")
    case False
    with Cons show ?thesis by simp
  next
    case True
    with Cons.prems(1) obtain r where
      d: "dict_add red a (amount / real (length under_supplied_assets)) = Inr r" and
      l: "under_supplied_loop amount as r = Inr red'"
      by (auto simp: Let_def split: sum.splits)
    from dict_add_sum [OF d Cons.prems(2)]
    have r: "sum_values r = sum_values red + amount / real (length under_supplied_assets)"
            "map fst r = map fst red" by simp_all
    with Cons.prems(2) have "distinct (map fst r)" by simp
    from Cons.IH [OF l this] r True show ?thesis
      by (simp add: algebra_simps add_divide_distrib)
  qed
qed

lemma strategic_loop_sum:
  assumes "strategic_loop cfg amount pf red = Inr red'" "distinct (map fst red)"
  shows "sum_values red' = sum_values red + real (length (filter (eligible cfg) pf)) * (amount / 3)
       \<and> map fst red' = map fst red
       \<and> fst ` set (filter (eligible cfg) pf) \<subseteq> set (map fst red)"
  using assms
proof (induction pf arbitrary: red)
  case Nil
  then show ?case by simp
next
  case (Cons item pf)
  obtain a v where item: "item = (a, v)" by (cases item)
  from Cons.prems(1) item obtain u where u: "utilization cfg a v = Inr u"
    by (auto split: sum.splits)
  show ?case
  proof (cases "u > 8 / 10")
    case True
    with Cons.prems(1) item u obtain r where
      d: "dict_add red a (amount / 3) = Inr r" and l: "strategic_loop cfg amount pf r = Inr red'"
      by (auto simp: Let_def split: sum.splits)
    from dict_add_sum [OF d Cons.prems(2)]
    have r: "sum_values r = sum_values red + amount / 3" "map fst r = map fst red"
            "a \<in> set (map fst red)" by simp_all
    with Cons.prems(2) have "distinct (map fst r)" by simp
    from Cons.IH [OF l this] r True u item show ?thesis
      by (auto simp: eligible_def algebra_simps)
  next
    case False
    with Cons.prems(1) item u have l: "strategic_loop cfg amount pf red = Inr red'" by simp
    from Cons.IH [OF l Cons.prems(2)] False u item show ?thesis
      by (auto simp: eligible_def)
  qed
qed

lemma proportional_loop_sum:
  assumes "proportional_loop amount tot pf red = Inr red'" "distinct (map fst red)"
  shows "sum_values red' = sum_values red + amount * (sum_values pf / tot)
       \<and> map fst red' = map fst red \<and> (pf \<noteq> [] \<longrightarrow> tot \<noteq> 0)"
  using assms
proof (induction pf arbitrary: red)
  case Nil
  then show ?case by (simp add: sum_values_def)
next
  case (Cons item pf)
  obtain a v where item: "item = (a, v)" by (cases item)
  from Cons.prems(1) item have t: "tot \<noteq> 0" by (auto split: if_splits)
  with Cons.prems(1) item obtain r where
    d: "dict_add red a (amount * (v / tot)) = Inr r" and
    l: "proportional_loop amount tot pf r = Inr red'"
    by (auto simp: Let_def split: sum.splits)
  from dict_add_sum [OF d Cons.prems(2)]
  have r: "sum_values r = sum_values red + amount * (v / tot)" "map fst r = map fst red"
    by simp_all
  with Cons.prems(2) have "distinct (map fst r)" by simp
  from Cons.IH [OF l this] r t item show ?case
    by (simp add: sum_values_def algebra_simps add_divide_distrib)
qed

lemma eligible_count_le:
  assumes "distinct (map fst pf)" "fst ` set (filter (eligible cfg) pf) \<subseteq> set assets"
  shows "length (filter (eligible cfg) pf) \<le> 3"
proof -
  have "distinct (map fst (filter (eligible cfg) pf))"
    using assms(1) by (rule distinct_map_filter)
  then have "length (filter (eligible cfg) pf) = card (fst ` set (filter (eligible cfg) pf))"
    by (metis distinct_card length_map set_map)
  also have "\<dots> \<le> card (set assets)" using assms(2) by (simp add: card_mono)
  also have "\<dots> = 3" by (simp add: assets_def)
  finally show ?thesis .
qed

lemma calculate_yield_redistribution_sum:
  assumes "calculate_yield_redistribution cfg pf ex tot = Inr red"
      and "distinct (map fst pf)" "pf \<noteq> []" "0 \<le> under_supplied_amount cfg tot"
  shows "sum_values red = under_supplied_amount cfg tot
            + real (length (filter (eligible cfg) pf)) * (strategic_amount cfg tot / 3)
            + proportional_amount cfg tot
       \<and> length (filter (eligible cfg) pf) \<le> 3"
proof -
  let ?r0 = "[(''cmBTC'', 0), (''cmUSD'', 0), (''cmBRL'', 0)] :: real dict"
  from assms(1) obtain r1 r2 where
    1: "under_supplied_loop (under_supplied_amount cfg tot) under_supplied_assets ?r0 = Inr r1" and
    2: "strategic_loop cfg (strategic_amount cfg tot) pf r1 = Inr r2" and
    3: "proportional_loop (proportional_amount cfg tot) (sum_values pf) pf r2 = Inr red"
    by (auto simp: calculate_yield_redistribution_def Let_def split: sum.splits)
  have d0: "distinct (map fst ?r0)" by simp
  from under_supplied_loop_sum [OF 1 d0] assms(4)
  have s1: "sum_values r1 = under_supplied_amount cfg tot" and k1: "map fst r1 = map fst ?r0"
    by (auto simp: sum_values_def under_supplied_assets_def)
  then have d1: "distinct (map fst r1)" by simp
  from strategic_loop_sum [OF 2 d1]
  have s2: "sum_values r2 = sum_values r1
              + real (length (filter (eligible cfg) pf)) * (strategic_amount cfg tot / 3)"
    and k2: "map fst r2 = map fst r1"
    and el: "fst ` set (filter (eligible cfg) pf) \<subseteq> set (map fst r1)" by simp_all
  from k2 d1 have d2: "distinct (map fst r2)" by simp
  from proportional_loop_sum [OF 3 d2] assms(3)
  have s3: "sum_values red = sum_values r2 + proportional_amount cfg tot" by simp
  from el k1 have "fst ` set (filter (eligible cfg) pf) \<subseteq> set assets" by (simp add: assets_def)
  from eligible_count_le [OF assms(2) this] s1 s2 s3 show ?thesis by simp
qed

lemma boost_loop_keys:
  "boost_loop cfg p rs (h, imp, tc) = ((h', imp', tc'), err) \<Longrightarrow> p < length h \<Longrightarrow>
     map fst (h' ! p) = map fst (h ! p)"
proof (induction rs arbitrary: h imp tc)
  case Nil
  then show ?case by simp
next
  case (Cons item rs)
  obtain a boost where item: "item = (a, boost)" by (cases item)
  show ?case
  proof (cases "boost > 0")
    case False
    with Cons item show ?thesis by simp
  next
    case True
    show ?thesis
    proof (cases "map_of (h ! p) a")
      case None
      with Cons.prems True item show ?thesis by simp
    next
      case (Some b)
      let ?vi = "b * (boost / 10000)"
      let ?h1 = "h[p := AList.update a (b + ?vi) (h ! p)]"
      let ?h2 = "?h1[p := AList.update a (b + ?vi - ?vi * transaction_cost cfg / 10000) (?h1 ! p)]"
      from Cons.prems(1) True item Some obtain imp2 tc2 where
        l: "boost_loop cfg p rs (?h2, imp2, tc2) = ((h', imp', tc'), err)"
        by (auto simp: Let_def)
      have k2: "map fst (?h2 ! p) = map fst (h ! p)"
        using Cons.prems(2) Some by (simp add: update_existing_keys)
      have "p < length ?h2" using Cons.prems(2) by simp
      from Cons.IH [OF l this] k2 show ?thesis by simp
    qed
  qed
qed

lemma execute_rebalancing_keys:
  "execute_rebalancing cfg h p ex ys d = (h', out) \<Longrightarrow> p < length h \<Longrightarrow>
     map fst (h' ! p) = map fst (h ! p)"
  by (auto simp: execute_rebalancing_def Let_def
        split: if_splits sum.splits prod.splits option.splits dest: boost_loop_keys)

lemma trigger_phase_keys:
  "trigger_phase cfg cp row st = (st2, err) \<Longrightarrow> cp < length (heap st) \<Longrightarrow>
     map fst (heap st2 ! cp) = map fst (heap st ! cp)"
  by (auto simp: trigger_phase_def rebalance_phase_def Let_def
        split: if_splits sum.splits prod.splits dest: execute_rebalancing_keys)

lemma execute_rebalancing_event:
  assumes "execute_rebalancing cfg h p ex ys d = (h', Inr (Some e))"
  shows "calculate_yield_redistribution cfg (h ! p) ex (ev_total_excess_yield e)
           = Inr (ev_redistribution e) \<and> 0 < ev_total_excess_yield e"
  using assms
  by (auto simp: execute_rebalancing_def Let_def
        split: if_splits sum.splits prod.splits option.splits)

lemma trigger_phase_event:
  assumes "trigger_phase cfg cp row st = (st2, None)"
      and "rebalance_events st2 = rebalance_events st @ [Some e]"
  shows "\<exists>ex. calculate_yield_redistribution cfg (heap st ! cp) ex (ev_total_excess_yield e)
                = Inr (ev_redistribution e) \<and> 0 < ev_total_excess_yield e"
  using assms
  by (auto simp: trigger_phase_def rebalance_phase_def Let_def
        split: if_splits sum.splits prod.splits dest!: execute_rebalancing_event)

lemmas result_defs = calculate_results_def cumprod_def drawdown_series_def
  actual_avg_yields_of_def column_sum_def mean_def

lemma drawdown_series_head:
  "drawdown_series (x # xs) = 0 # map (\<lambda>(c, m). (c - m) / m) (zip xs (expanding_max_from x xs))"
  by (simp add: drawdown_series_def)

lemma calculate_results_max_drawdown_le_0:
  assumes "calculate_results cfg sim = Inr res"
  shows "br_max_drawdown res \<le> 0"
proof -
  let ?w = "cumprod (map (\<lambda>r. 1 + r)
               (pct_change (map dv_portfolio_value (sr_daily_values sim))))"
  from assms have ne: "?w \<noteq> []" and md: "br_max_drawdown res = Min (set (drawdown_series ?w))"
    by (auto simp: calculate_results_def Let_def split: if_splits sum.splits)
  from ne obtain x xs where "?w = x # xs" by (cases ?w) auto
  then have "0 \<in> set (drawdown_series ?w)" by (simp add: drawdown_series_head)
  then have "Min (set (drawdown_series ?w)) \<le> 0" by (intro Min_le) simp_all
  with md show ?thesis by simp
qed

lemma calculate_results_ratios_zero:
  assumes "calculate_results cfg sim = Inr res"
  shows "(br_volatility res = Some 0 \<or> br_volatility res = None \<longrightarrow> br_sharpe_ratio res = 0)
       \<and> (br_max_drawdown res = 0 \<longrightarrow> br_calmar_ratio res = 0)"
  using assms
  by (auto simp: calculate_results_def Let_def split: if_splits sum.splits option.splits)

lemma pyfloat_less_PosInf: "pyfloat_less a b \<Longrightarrow> pyfloat_less a PosInf"
  by (cases a; cases b) simp_all

lemma methods_loop_all_fail:
  assumes "\<And>m f x b c s. isl (fst (minimize m f x b c s))"
  shows "fst (methods_loop minimize f x0 bounds constraints methods (best, bv, self)) = best"
proof (induction methods arbitrary: self)
  case Nil
  then show ?case by simp
next
  case (Cons m ms)
  have "\<And>c s. \<exists>e s'. minimize m f x0 bounds c s = (Inl e, s')"
    using assms by (metis isl_def prod.collapse)
  then obtain e1 s1 e2 s2 where
    "minimize m f x0 bounds (Some constraints) self = (Inl e1, s1)"
    "minimize m f x0 bounds None self = (Inl e2, s2)" by metis
  with Cons.IH show ?case by (cases "m = ''SLSQP''"; cases "constraints = []") simp_all
qed

lemma methods_loop_best:
  assumes "fst (methods_loop minimize f x0 bounds constraints methods (best, bv, self)) = Some r"
      and "best = None \<or> (\<exists>m c s. fst (minimize m f x0 bounds c s) = Inr (the best)
                               \<and> pyfloat_less (res_fun (the best)) PosInf)"
  shows "\<exists>m c s. fst (minimize m f x0 bounds c s) = Inr r \<and> pyfloat_less (res_fun r) PosInf"
  using assms
proof (induction methods arbitrary: best bv self)
  case Nil
  then show ?case by auto
next
  case (Cons m ms)
  show ?case
  proof (cases "m = ''SLSQP'' \<or> constraints = []")
    case False
    with Cons.prems have
      "fst (methods_loop minimize f x0 bounds constraints ms (best, bv, self)) = Some r" by simp
    from Cons.IH [OF this Cons.prems(2)] show ?thesis .
  next
    case True
    define c where "c = (if m = ''SLSQP'' then Some constraints else None)"
    obtain out s1 where call: "minimize m f x0 bounds c self = (out, s1)" by fastforce
    show ?thesis
    proof (cases out)
      case (Inl e)
      with Cons.prems(1) True call have
        "fst (methods_loop minimize f x0 bounds constraints ms (best, bv, s1)) = Some r"
        by (auto simp: c_def split: if_splits)
      from Cons.IH [OF this Cons.prems(2)] show ?thesis .
    next
      case (Inr res)
      show ?thesis
      proof (cases "pyfloat_less (res_fun res) bv")
        case False
        with Cons.prems(1) True call Inr have
          "fst (methods_loop minimize f x0 bounds constraints ms (best, bv, s1)) = Some r"
          by (auto simp: c_def split: if_splits)
        from Cons.IH [OF this Cons.prems(2)] show ?thesis .
      next
        case less: True
        with Cons.prems(1) True call Inr have l:
          "fst (methods_loop minimize f x0 bounds constraints ms (Some res, res_fun res, s1))
             = Some r"
          by (auto simp: c_def split: if_splits)
        from call Inr have "fst (minimize m f x0 bounds c self) = Inr res" by simp
        moreover from less have "pyfloat_less (res_fun res) PosInf" by (rule pyfloat_less_PosInf)
        ultimately have "Some res = None \<or>
            (\<exists>m c s. fst (minimize m f x0 bounds c s) = Inr (the (Some res))
                   \<and> pyfloat_less (res_fun (the (Some res))) PosInf)" by auto
        from Cons.IH [OF l this] show ?thesis .
      qed
    qed
  qed
qed

lemma optimize_scipy_cases:
  "fst (optimize_scipy minimize base_config f constraints bounds self) =
     (case fst (methods_loop minimize f (initial_guess base_config) bounds constraints
                  [''SLSQP'', ''L-BFGS-B''] (None, PosInf, self)) of
        None \<Rightarrow> Inl RuntimeError
      | Some best_result \<Rightarrow>
          Inr \<lparr> optimal_params = zip param_names (res_x best_result),
                optimal_value = (if res_fun best_result \<noteq> PosInf
                                 then pyfloat_neg (res_fun best_result)
                                 else res_fun best_result),
                optimization_method = ''scipy'',
                convergence_status =
                  (if res_success best_result then ''success'' else ''failed''),
                iterations = res_nit best_result,
                function_evaluations = res_nfev best_result \<rparr>)"
proof -
  obtain best bv s where
    "methods_loop minimize f (initial_guess base_config) bounds constraints
       [''SLSQP'', ''L-BFGS-B''] (None, PosInf, self) = (best, bv, s)"
    by (rule prod_cases3)
  then show ?thesis by (cases best) (simp_all add: optimize_scipy_def)
qed

lemma loop_body_event_accounted:
  assumes lb: "loop_body cfg cp row st = (st', None)"
      and cp: "cp < length (heap st)"
      and dist: "distinct (map fst (heap st ! cp))"
      and w: "under_supplied_allocation cfg + strategic_growth_allocation cfg
                + proportional_allocation cfg + treasury_allocation cfg = 1"
      and uw: "0 \<le> under_supplied_allocation cfg"
      and sw: "0 \<le> strategic_growth_allocation cfg"
      and ev: "rebalance_events st' = rebalance_events st @ [Some e]"
  shows "ev_total_excess_yield e - strategic_amount cfg (ev_total_excess_yield e)
           \<le> event_accounted cfg e
       \<and> event_accounted cfg e \<le> ev_total_excess_yield e
       \<and> ((\<forall>item \<in> set (heap st ! cp). \<not> eligible cfg item) \<longrightarrow>
            event_accounted cfg e
              = ev_total_excess_yield e - strategic_amount cfg (ev_total_excess_yield e))"
proof -
  let ?pf = "heap st ! cp"
  let ?tot = "ev_total_excess_yield e"
  let ?k = "length (filter (eligible cfg) ?pf)"
  let ?S = "strategic_amount cfg ?tot"
  from loop_body_decomp [OF lb] obtain st2 st3 h' where
    t: "trigger_phase cfg cp row st = (st2, None)" and
    r: "record_daily_value cp (row_date row) (row_yields row) st2 = (st3, None)" and
    s: "st' = st3\<lparr>heap := h'\<rparr>" by blast
  from record_daily_value_events [OF r] s ev
  have ev2: "rebalance_events st2 = rebalance_events st @ [Some e]" by simp
  from trigger_phase_event [OF t ev2] obtain ex where
    c: "calculate_yield_redistribution cfg ?pf ex ?tot = Inr (ev_redistribution e)" and
    pos: "0 < ?tot" by blast
  from r have "heap st2 ! cp \<noteq> []"
    by (auto simp: record_daily_value_def Let_def split: option.splits)
  with trigger_phase_keys [OF t cp] have ne: "?pf \<noteq> []" by auto
  from pos uw have ua: "0 \<le> under_supplied_amount cfg ?tot"
    by (simp add: under_supplied_amount_def)
  from pos sw have S: "0 \<le> ?S" by (simp add: strategic_amount_def)
  from calculate_yield_redistribution_sum [OF c dist ne ua]
  have sum: "sum_values (ev_redistribution e) = under_supplied_amount cfg ?tot
               + real ?k * (?S / 3) + proportional_amount cfg ?tot"
    and k: "?k \<le> 3" by simp_all
  from w have "?tot * (under_supplied_allocation cfg + strategic_growth_allocation cfg
                + proportional_allocation cfg + treasury_allocation cfg) = ?tot" by simp
  then have split: "under_supplied_amount cfg ?tot + proportional_amount cfg ?tot
                      + treasury_amount cfg ?tot = ?tot - ?S"
    by (simp add: under_supplied_amount_def proportional_amount_def treasury_amount_def
          strategic_amount_def algebra_simps)
  from sum split have acc: "event_accounted cfg e = ?tot - ?S + real ?k * (?S / 3)"
    by (simp add: event_accounted_def)
  have lo: "0 \<le> real ?k * (?S / 3)" using S by simp
  from k have "real ?k \<le> 3" by simp
  then have "real ?k * (?S / 3) \<le> 3 * (?S / 3)" using S by (intro mult_right_mono) simp_all
  then have hi: "real ?k * (?S / 3) \<le> ?S" by simp
  have none: "?k = 0" if "\<forall>item \<in> set ?pf. \<not> eligible cfg item"
    using that by (simp add: filter_empty_conv)
  from acc lo hi none show ?thesis by auto
qed


lemma compound_loop_keys:
  "compound_loop cp ys as h = (h', err) \<Longrightarrow> cp < length h \<Longrightarrow>
     map fst (h' ! cp) = map fst (h ! cp)"
proof (induction as arbitrary: h)
  case Nil
  then show ?case by simp
next
  case (Cons a as)
  show ?case
  proof (cases "map_of ys a")
    case None
    with Cons.prems show ?thesis by simp
  next
    case y: (Some y)
    show ?thesis
    proof (cases "map_of (h ! cp) a")
      case None
      with Cons.prems y show ?thesis by simp
    next
      case (Some b)
      let ?h1 = "h[cp := AList.update a (b * (1 + y / 10000 / 365)) (h ! cp)]"
      from Cons.prems(1) y Some have l: "compound_loop cp ys as ?h1 = (h', err)"
        by (simp add: Let_def)
      have k: "map fst (?h1 ! cp) = map fst (h ! cp)"
        using Cons.prems(2) Some by (simp add: update_existing_keys)
      have "cp < length ?h1" using Cons.prems(2) by simp
      from Cons.IH [OF l this] k show ?thesis by simp
    qed
  qed
qed

lemma loop_body_keys:
  assumes "loop_body cfg cp row st = (st', err)" "cp < length (heap st)"
  shows "map fst (heap st' ! cp) = map fst (heap st ! cp)"
proof -
  obtain st2 e2 where t: "trigger_phase cfg cp row st = (st2, e2)" by fastforce
  obtain st3 e3 where rd: "record_daily_value cp (row_date row) (row_yields row) st2 = (st3, e3)"
    by fastforce
  obtain h4 e4 where c: "compound_loop cp (row_yields row) assets (heap st3) = (h4, e4)"
    by fastforce
  from trigger_phase_keys [OF t assms(2)] trigger_phase_frame [OF t] assms(2)
  have 2: "map fst (heap st2 ! cp) = map fst (heap st ! cp)" "cp < length (heap st2)"
    by simp_all
  from record_daily_value_events [OF rd] have 3: "heap st3 = heap st2" by simp
  from compound_loop_keys [OF c] 2 3
  have 4: "map fst (h4 ! cp) = map fst (heap st ! cp)" by simp
  from assms(1) t rd c have "st' = st2 \<or> st' = st3 \<or> st' = st3\<lparr>heap := h4\<rparr>"
    by (auto simp: loop_body_def split: option.splits)
  with 2 3 4 show ?thesis by auto
qed

lemma sim_loop_events_accounted:
  assumes w: "under_supplied_allocation cfg + strategic_growth_allocation cfg
                + proportional_allocation cfg + treasury_allocation cfg = 1"
      and uw: "0 \<le> under_supplied_allocation cfg"
      and sw: "0 \<le> strategic_growth_allocation cfg"
      and "cp < length (heap st)" "distinct (map fst (heap st ! cp))"
      and "\<forall>e. Some e \<in> set (rebalance_events st) \<longrightarrow>
             ev_total_excess_yield e - strategic_amount cfg (ev_total_excess_yield e)
               \<le> event_accounted cfg e
           \<and> event_accounted cfg e \<le> ev_total_excess_yield e"
      and "sim_loop cfg cp rows st = (st', None)"
  shows "\<forall>e. Some e \<in> set (rebalance_events st') \<longrightarrow>
             ev_total_excess_yield e - strategic_amount cfg (ev_total_excess_yield e)
               \<le> event_accounted cfg e
           \<and> event_accounted cfg e \<le> ev_total_excess_yield e"
  using assms(4-)
proof (induction rows arbitrary: st)
  case Nil
  then show ?case by simp
next
  case (Cons row rows)
  from Cons.prems(4) obtain st1 where
    b: "loop_body cfg cp row st = (st1, None)" and l: "sim_loop cfg cp rows st1 = (st', None)"
    by (auto split: prod.splits option.splits)
  from loop_body_frame [OF b] Cons.prems(1) have cp1: "cp < length (heap st1)" by simp
  from loop_body_keys [OF b Cons.prems(1)] Cons.prems(2)
  have d1: "distinct (map fst (heap st1 ! cp))" by simp
  have e1: "\<forall>e. Some e \<in> set (rebalance_events st1) \<longrightarrow>
             ev_total_excess_yield e - strategic_amount cfg (ev_total_excess_yield e)
               \<le> event_accounted cfg e
           \<and> event_accounted cfg e \<le> ev_total_excess_yield e"
  proof (intro allI impI)
    fix e assume e: "Some e \<in> set (rebalance_events st1)"
    from loop_body_fires [OF b] consider
      "rebalance_events st1 = rebalance_events st" |
      ev where "rebalance_events st1 = rebalance_events st @ [ev]"
      by (auto split: if_splits)
    then show "ev_total_excess_yield e - strategic_amount cfg (ev_total_excess_yield e)
               \<le> event_accounted cfg e
           \<and> event_accounted cfg e \<le> ev_total_excess_yield e"
    proof cases
      case 1
      with e Cons.prems(3) show ?thesis by simp
    next
      case 2
      show ?thesis
      proof (cases "Some e \<in> set (rebalance_events st)")
        case True
        with Cons.prems(3) show ?thesis by simp
      next
        case False
        with e 2 have "rebalance_events st1 = rebalance_events st @ [Some e]" by auto
        from loop_body_event_accounted [OF b Cons.prems(1,2) w uw sw this]
        show ?thesis by simp
      qed
    qed
  qed
  from Cons.IH [OF cp1 d1 e1 l] show ?case .
qed

lemma run_simulation_events_accounted:
  assumes "run_simulation cfg h data p = (h', Inr res)"
      and "p < length h" "distinct (map fst (h ! p))"
      and w: "under_supplied_allocation cfg + strategic_growth_allocation cfg
                + proportional_allocation cfg + treasury_allocation cfg = 1"
      and uw: "0 \<le> under_supplied_allocation cfg"
      and sw: "0 \<le> strategic_growth_allocation cfg"
      and "Some e \<in> set (sr_rebalance_events res)"
  shows "ev_total_excess_yield e - strategic_amount cfg (ev_total_excess_yield e)
           \<le> event_accounted cfg e
       \<and> event_accounted cfg e \<le> ev_total_excess_yield e"
proof -
  let ?st0 = "init_state (h @ [h ! p])"
  from assms(1) obtain st where
    l: "sim_loop cfg (length h) data ?st0 = (st, None)" and
    r: "sr_rebalance_events res = rebalance_events st"
    by (auto simp: run_simulation_def deepcopy_def split: prod.splits option.splits)
  have 1: "length h < length (heap ?st0)" by (simp add: init_state_def)
  have 2: "distinct (map fst (heap ?st0 ! length h))"
    using assms(3) by (simp add: init_state_def)
  have 3: "\<forall>e. Some e \<in> set (rebalance_events ?st0) \<longrightarrow>
             ev_total_excess_yield e - strategic_amount cfg (ev_total_excess_yield e)
               \<le> event_accounted cfg e
           \<and> event_accounted cfg e \<le> ev_total_excess_yield e"
    by (simp add: init_state_def)
  from sim_loop_events_accounted [OF w uw sw 1 2 3 l] assms(7) r show ?thesis by simp
qed

section \<open>Configuration validation\<close>

lemma default_config_constructs:
  "post_init (40 / 100) (30 / 100) (20 / 100) (10 / 100) 100 1 7 None None 5 50 = Inr default_config"
  by (simp add: post_init_def np_isclose_def default_config_def)

text \<open>
  C5 as stated: constructing a configuration fails for every malformed configuration, in
  particular when a bound such as the rebalance threshold is non-positive. The
  constructor accepts a rebalance threshold of \<open>-5\<close>: \<^verbatim>\<open>__post_init__\<close> checks
  the sum of the four weights and nothing else.
\<close>

theorem post_init_accepts_nonpositive_threshold:
  "post_init (40 / 100) (30 / 100) (20 / 100) (10 / 100) (- 5) 1 7 None None 5 50
     = Inr (default_config\<lparr>rebalance_threshold := - 5\<rparr>)"
  by (simp add: post_init_def np_isclose_def default_config_def)

text \<open>
  C5, amended: constructing a configuration fails exactly when the four allocation
  weights do not sum to 1.0 within the tolerance of \<^verbatim>\<open>np.isclose\<close>
  (\<open>|sum - 1| \<le> 1e-8 + 1e-5\<close>); no other field is validated, and a configuration
  that is constructed stores every scalar argument as the caller gave it.
\<close>

theorem post_init_validates_weight_sum_only:
  "((\<exists>e. post_init us sg pr tr thr mri mrf ty sc tc gas = Inl e)
      \<longleftrightarrow> \<bar>us + sg + pr + tr - 1\<bar> > 1 / 10 ^ 8 + 1 / 10 ^ 5)
   \<and> (\<forall>c. post_init us sg pr tr thr mri mrf ty sc tc gas = Inr c \<longrightarrow>
          under_supplied_allocation c = us \<and> strategic_growth_allocation c = sg
        \<and> proportional_allocation c = pr \<and> treasury_allocation c = tr
        \<and> rebalance_threshold c = thr \<and> min_rebalance_interval c = mri
        \<and> max_rebalance_frequency c = mrf \<and> transaction_cost c = tc \<and> gas_cost_usd c = gas)"
  by (auto simp add: post_init_def np_isclose_def Let_def)

theorem post_init_validates_weight_sum_only_witness:
  "post_init (40 / 100) (30 / 100) (20 / 100) (10 / 100) (- 5) 1 7 None None 5 50
      = Inr (default_config\<lparr>rebalance_threshold := - 5\<rparr>)
   \<and> rebalance_threshold (default_config\<lparr>rebalance_threshold := - 5\<rparr>) = - 5
   \<and> \<not> (\<exists>e. post_init (40 / 100) (30 / 100) (20 / 100) (10 / 100) (- 5) 1 7 None None 5 50 = Inl e)"
  using post_init_validates_weight_sum_only
          [of "40 / 100" "30 / 100" "20 / 100" "10 / 100" "- 5" 1 7 None None 5 50]
  by (simp add: post_init_def np_isclose_def default_config_def)

section \<open>The rebalancing trigger\<close>

text \<open>
  C3: in every period, rebalancing fires iff the sum over the assets of
  \<open>max(0, yield - target_yield)\<close> is at least the rebalance threshold and either no
  rebalance has occurred yet or at least \<open>min_rebalance_interval\<close> days have elapsed
  since the last rebalance date. The first conjunct is the value the trigger check
  returns in the loop; the second is what a completed loop iteration does with it: it
  appends one event and sets the last rebalance date when the trigger fires, and leaves
  both alone when it does not.
\<close>

theorem rebalance_fires_iff:
  "fst (check_rebalance_conditions cfg (row_yields row) (heap st ! cp)
          (last_rebalance_date st) (row_date row))
     = spec_fires cfg (last_rebalance_date st) row
   \<and> (loop_body cfg cp row st = (st', None) \<longrightarrow>
        (if spec_fires cfg (last_rebalance_date st) row
         then (\<exists>ev. rebalance_events st' = rebalance_events st @ [ev])
              \<and> last_rebalance_date st' = Some (row_date row)
         else rebalance_events st' = rebalance_events st
              \<and> last_rebalance_date st' = last_rebalance_date st))"
  using check_fires loop_body_fires by blast

theorem rebalance_fires_iff_witness:
  "snd (loop_body default_config 0 excess_row (init_state [default_portfolio])) = None
   \<and> spec_fires default_config None excess_row
   \<and> length (rebalance_events
               (fst (loop_body default_config 0 excess_row (init_state [default_portfolio])))) = 1
   \<and> last_rebalance_date
        (fst (loop_body default_config 0 excess_row (init_state [default_portfolio]))) = Some 0"
  using rebalance_fires_iff [of default_config excess_row "init_state [default_portfolio]" 0
          "fst (loop_body default_config 0 excess_row (init_state [default_portfolio]))"]
  by (simp add: sim_defs)

section \<open>The order of operations in a period\<close>

text \<open>
  C8 as stated: the day's total appended to the value series is the sum of the balances
  after compounding. On a day with every yield at its target and the default portfolio
  the appended total is 75, the sum of the balances before compounding; the sum after
  compounding is \<open>27387 / 365\<close>.
\<close>

theorem daily_value_before_compounding:
  "dv_portfolio_value (last (daily_values
       (fst (loop_body default_config 0 target_row (init_state [default_portfolio]))))) = 75
   \<and> sum_values (heap (fst (loop_body default_config 0 target_row
                               (init_state [default_portfolio]))) ! 0) = 27387 / 365"
  by (simp add: sim_defs)

text \<open>
  C8, amended: in each period the operations occur in this order: trigger evaluation and
  redistribution if triggered; then the day's total portfolio value, the sum of the
  balances after the redistribution and before compounding, is appended to the value
  series; then every asset balance is compounded by \<open>1 + yield_bp/10000/365\<close>.
\<close>

theorem loop_body_order:
  assumes "loop_body cfg cp row st = (st', None)" and "cp < length (heap st)"
  shows "\<exists>st2. trigger_phase cfg cp row st = (st2, None)
           \<and> (\<exists>dv. daily_values st' = daily_values st @ [dv]
                  \<and> dv_portfolio_value dv = sum_values (heap st2 ! cp))
           \<and> (\<forall>(a, y) \<in> set (row_yields row).
                 \<exists>b. map_of (heap st2 ! cp) a = Some b
                    \<and> map_of (heap st' ! cp) a = Some (b * (1 + y / 10000 / 365)))"
proof -
  from loop_body_decomp [OF assms(1)] obtain st2 st3 h' where
    t: "trigger_phase cfg cp row st = (st2, None)" and
    r: "record_daily_value cp (row_date row) (row_yields row) st2 = (st3, None)" and
    c: "compound_loop cp (row_yields row) assets (heap st3) = (h', None)" and
    s: "st' = st3\<lparr>heap := h'\<rparr>" by blast
  from trigger_phase_frame [OF t] assms(2)
  have len: "cp < length (heap st2)" and dv2: "daily_values st2 = daily_values st" by simp_all
  from r have h3: "heap st3 = heap st2"
    and dv3: "\<exists>dv. daily_values st3 = daily_values st2 @ [dv]
                 \<and> dv_portfolio_value dv = sum_values (heap st2 ! cp)"
    by (auto simp: record_daily_value_def calculate_portfolio_value_def Let_def
          split: option.splits)
  have d: "distinct assets" by (simp add: assets_def)
  from compound_loop_lookup [OF c _ d] len h3
  have look: "\<And>a. map_of (h' ! cp) a =
            (if a \<in> set assets
             then (case (map_of (heap st2 ! cp) a, map_of (row_yields row) a) of
                     (Some b, Some y) \<Rightarrow> Some (b * (1 + y / 10000 / 365)) | _ \<Rightarrow> None)
             else map_of (heap st2 ! cp) a)" by simp
  from r have keys: "\<And>a. a \<in> set assets \<Longrightarrow> \<exists>b. map_of (heap st2 ! cp) a = Some b"
    by (auto simp: record_daily_value_def assets_def Let_def split: option.splits)
  have "\<exists>b. map_of (heap st2 ! cp) a = Some b
           \<and> map_of (heap st' ! cp) a = Some (b * (1 + y / 10000 / 365))"
    if "(a, y) \<in> set (row_yields row)" for a y
  proof -
    from that have ain: "a \<in> set assets" and my: "map_of (row_yields row) a = Some y"
      by (auto simp: row_yields_def assets_def)
    from keys [OF ain] obtain b where b: "map_of (heap st2 ! cp) a = Some b" by blast
    with look [of a] ain my s show ?thesis by simp
  qed
  with t dv2 dv3 s show ?thesis by auto
qed

theorem loop_body_order_witness:
  "snd (loop_body default_config 0 target_row (init_state [default_portfolio])) = None
   \<and> (0::nat) < length (heap (init_state [default_portfolio]))
   \<and> snd (trigger_phase default_config 0 target_row (init_state [default_portfolio])) = None
   \<and> heap (fst (trigger_phase default_config 0 target_row (init_state [default_portfolio]))) ! 0
       = default_portfolio
   \<and> map dv_portfolio_value
        (daily_values (fst (loop_body default_config 0 target_row
                              (init_state [default_portfolio]))))
       = [sum_values default_portfolio]
   \<and> heap (fst (loop_body default_config 0 target_row (init_state [default_portfolio]))) ! 0
       = [(''cmBTC'', 10 * (1 + 500 / 10000 / 365)),
          (''cmUSD'', 25 * (1 + 1400 / 10000 / 365)),
          (''cmBRL'', 40 * (1 + 2000 / 10000 / 365))]"
proof -
  have sn: "snd (loop_body default_config 0 target_row (init_state [default_portfolio])) = None"
    by (simp add: sim_defs)
  then have run: "loop_body default_config 0 target_row (init_state [default_portfolio])
               = (fst (loop_body default_config 0 target_row (init_state [default_portfolio])),
                  None)"
    by (simp add: prod_eq_iff)
  have len: "(0::nat) < length (heap (init_state [default_portfolio]))"
    by (simp add: init_state_def)
  from loop_body_order [OF run len] show ?thesis by (simp add: sim_defs)
qed

section \<open>The caller's portfolio\<close>

text \<open>
  C9: for every call to \<^verbatim>\<open>run_backtest\<close>, whether it returns or raises, the
  caller-supplied \<^verbatim>\<open>initial_portfolio\<close> mapping is unchanged after the call: the
  simulation mutates only the copy it allocates. In the store model every dictionary
  that exists before the call, the caller's among them, has the same items afterwards.
\<close>

theorem run_backtest_frame:
  assumes "run_backtest self h start_date end_date initial_portfolio = (h', out)"
  shows "\<forall>r < length h. h' ! r = h ! r"
proof (intro allI impI)
  fix r assume r: "r < length h"
  show "h' ! r = h ! r"
  proof (cases "length (filter_data self start_date end_date) = 0")
    case True
    with assms show ?thesis by (simp add: run_backtest_def)
  next
    case False
    show ?thesis
    proof (cases initial_portfolio)
      case None
      obtain h2 o2 where s: "run_simulation (bt_config self) (h @ [default_portfolio])
           (filter_data self start_date end_date) (length h) = (h2, o2)" by fastforce
      with assms False None have "h' = h2"
        by (auto simp: run_backtest_def Let_def split: sum.splits)
      with run_simulation_frame [OF s, of r] r show ?thesis by (simp add: nth_append)
    next
      case (Some p)
      obtain h2 o2 where s: "run_simulation (bt_config self) h
           (filter_data self start_date end_date) p = (h2, o2)" by fastforce
      with assms False Some have "h' = h2"
        by (auto simp: run_backtest_def Let_def split: sum.splits)
      with run_simulation_frame [OF s r] show ?thesis by simp
    qed
  qed
qed

theorem run_backtest_frame_witness:
  "(0::nat) < length [default_portfolio]
   \<and> fst excess_run ! 0 = default_portfolio
   \<and> fst excess_run ! 1 \<noteq> default_portfolio"
  using run_backtest_frame [of "CCYOEBacktester_init excess_data default_config"
          "[default_portfolio]" 0 172800000000000 "Some 0" "fst excess_run" "snd excess_run"]
  by (simp add: sim_defs)

section \<open>The spacing of rebalance events\<close>

text \<open>
  C4: for any input yield series and any configuration, no two rebalance events recorded
  in one run are dated fewer than \<open>min_rebalance_interval\<close> days apart: of two dated
  events in the log of a backtest, the later one is at least that many days after the
  earlier one, both by the day count \<^verbatim>\<open>.days\<close> the program uses and by elapsed time.
\<close>

theorem rebalance_events_spaced:
  assumes "run_backtest (CCYOEBacktester_init data cfg) h start_date end_date initial_portfolio
             = (h', Inr res)"
      and "i < j" "j < length (br_rebalance_events res)"
      and "br_rebalance_events res ! i = Some ei" "br_rebalance_events res ! j = Some ej"
  shows "min_rebalance_interval cfg \<le> days_between (ev_date ej) (ev_date ei)
       \<and> min_rebalance_interval cfg * ns_per_day \<le> ev_date ej - ev_date ei"
proof -
  let ?self = "CCYOEBacktester_init data cfg"
  let ?rows = "filter_data ?self start_date end_date"
  have srt: "sorted (map row_date ?rows)"
    by (simp add: filter_data_def CCYOEBacktester_init_def prepare_data_def sorted_filter)
  have cfg: "bt_config ?self = cfg" by (simp add: CCYOEBacktester_init_def)
  from assms(1) obtain h1 p h2 sim where
    s: "run_simulation cfg h1 ?rows p = (h2, Inr sim)" and
    c: "calculate_results cfg sim = Inr res"
    unfolding run_backtest_def Let_def cfg
    by (auto split: if_splits prod.splits sum.splits option.splits)
  from calculate_results_events [OF c] assms(2-)
  have "j < length (sr_rebalance_events sim)"
       "sr_rebalance_events sim ! i = Some ei" "sr_rebalance_events sim ! j = Some ej"
    by simp_all
  from run_simulation_spaced [OF s srt assms(2) this]
  show ?thesis by (simp add: days_between_ge)
qed

theorem rebalance_events_spaced_witness:
  "\<not> isl (snd excess_run)
   \<and> map (map_option ev_date) (br_rebalance_events (projr (snd excess_run)))
       = [Some 0, Some 172800000000000]
   \<and> min_rebalance_interval default_config \<le> days_between 172800000000000 0
   \<and> min_rebalance_interval default_config * ns_per_day \<le> 172800000000000 - 0"
proof -
  let ?evs = "br_rebalance_events (projr (snd excess_run))"
  have ok: "\<not> isl (snd excess_run)"
    by (simp add: sim_defs calculate_results_def cumprod_def drawdown_series_def
          actual_avg_yields_of_def column_sum_def mean_def)
  have dates: "map (map_option ev_date) ?evs = [Some 0, Some 172800000000000]"
    by (simp add: sim_defs calculate_results_def cumprod_def drawdown_series_def
          actual_avg_yields_of_def column_sum_def mean_def)
  from ok have run: "run_backtest (CCYOEBacktester_init excess_data default_config)
                       [default_portfolio] 0 172800000000000 (Some 0)
                     = (fst excess_run, Inr (projr (snd excess_run)))"
    by (simp add: excess_run_def [symmetric] prod_eq_iff)
  from dates have len: "length ?evs = 2" by (metis length_map length_Cons list.size(3) Suc_1 One_nat_def)
  from dates have "map (map_option ev_date) ?evs ! 0 = Some 0"
                  "map (map_option ev_date) ?evs ! 1 = Some 172800000000000" by simp_all
  with len obtain e0 e1 where
    e: "?evs ! 0 = Some e0" "?evs ! 1 = Some e1" "ev_date e0 = 0" "ev_date e1 = 172800000000000"
    by (auto simp: nth_map)
  from len have j: "(1::nat) < length ?evs" by simp
  from rebalance_events_spaced [OF run _ j e(1,2)] e(3,4) ok dates show ?thesis by simp
qed

section \<open>What a rebalance event accounts for\<close>

text \<open>
  C1 as stated: for every rebalance event of a run, the per-asset redistribution amounts
  plus the treasury amount add up to the event's total excess. With the default
  configuration and portfolio and a total excess of 200 basis points, the event accounts
  for 140: no asset passes the utilization test, and the strategic-growth bucket of 60
  is handed to nobody.
\<close>

theorem event_accounts_for_less:
  "map (map_option ev_total_excess_yield)
         (sr_rebalance_events
            (projr (snd (run_simulation default_config [default_portfolio] [excess_row] 0))))
     = [Some 200]
   \<and> map (map_option (event_accounted default_config))
         (sr_rebalance_events
            (projr (snd (run_simulation default_config [default_portfolio] [excess_row] 0))))
     = [Some 140]"
  by (simp add: sim_defs)

text \<open>
  C1, amended: for a configuration whose four weights sum to 1, with non-negative
  under-supplied and strategic-growth weights, and a portfolio dictionary with distinct
  keys, every rebalance event of a completed simulation run accounts for at most its
  total excess and at least its total excess less the strategic-growth bucket: the
  per-asset redistribution amounts plus the treasury amount lie between
  \<open>total_excess - total_excess * strategic_weight\<close> and \<open>total_excess\<close>. When no
  asset is eligible for the strategic-growth bucket at the balances before the rebalance,
  they equal the lower bound.
\<close>

theorem event_accounting:
  assumes w: "under_supplied_allocation cfg + strategic_growth_allocation cfg
                + proportional_allocation cfg + treasury_allocation cfg = 1"
      and uw: "0 \<le> under_supplied_allocation cfg"
      and sw: "0 \<le> strategic_growth_allocation cfg"
  shows "(run_simulation cfg h data p = (h', Inr res) \<and> p < length h
            \<and> distinct (map fst (h ! p)) \<and> Some e \<in> set (sr_rebalance_events res)
          \<longrightarrow> ev_total_excess_yield e - strategic_amount cfg (ev_total_excess_yield e)
                \<le> event_accounted cfg e
              \<and> event_accounted cfg e \<le> ev_total_excess_yield e)
       \<and> (loop_body cfg cp row st = (st', None) \<and> cp < length (heap st)
            \<and> distinct (map fst (heap st ! cp))
            \<and> rebalance_events st' = rebalance_events st @ [Some e']
            \<and> (\<forall>item \<in> set (heap st ! cp). \<not> eligible cfg item)
          \<longrightarrow> event_accounted cfg e'
                = ev_total_excess_yield e' - strategic_amount cfg (ev_total_excess_yield e'))"
proof (intro conjI impI)
  assume a: "run_simulation cfg h data p = (h', Inr res) \<and> p < length h
            \<and> distinct (map fst (h ! p)) \<and> Some e \<in> set (sr_rebalance_events res)"
  then have "run_simulation cfg h data p = (h', Inr res)" "p < length h"
    "distinct (map fst (h ! p))" "Some e \<in> set (sr_rebalance_events res)" by simp_all
  from run_simulation_events_accounted [OF this(1-3) w uw sw this(4)]
  show "ev_total_excess_yield e - strategic_amount cfg (ev_total_excess_yield e)
          \<le> event_accounted cfg e"
    and "event_accounted cfg e \<le> ev_total_excess_yield e" by simp_all
next
  assume a: "loop_body cfg cp row st = (st', None) \<and> cp < length (heap st)
            \<and> distinct (map fst (heap st ! cp))
            \<and> rebalance_events st' = rebalance_events st @ [Some e']
            \<and> (\<forall>item \<in> set (heap st ! cp). \<not> eligible cfg item)"
  then have "loop_body cfg cp row st = (st', None)" "cp < length (heap st)"
    "distinct (map fst (heap st ! cp))"
    "rebalance_events st' = rebalance_events st @ [Some e']"
    and ne: "\<forall>item \<in> set (heap st ! cp). \<not> eligible cfg item" by simp_all
  from loop_body_event_accounted [OF this(1-3) w uw sw this(4)] ne
  show "event_accounted cfg e'
          = ev_total_excess_yield e' - strategic_amount cfg (ev_total_excess_yield e')"
    by simp
qed

theorem event_accounting_witness:
  "snd excess_step = None
   \<and> rebalance_events (fst excess_step) = [Some excess_event]
   \<and> \<not> isl (snd excess_sim)
   \<and> sr_rebalance_events (projr (snd excess_sim)) = [Some excess_event]
   \<and> ev_total_excess_yield excess_event = 200
   \<and> strategic_amount default_config 200 = 60
   \<and> \<not> eligible default_config (''cmBTC'', 10)
   \<and> \<not> eligible default_config (''cmUSD'', 25)
   \<and> \<not> eligible default_config (''cmBRL'', 40)
   \<and> event_accounted default_config excess_event = 140"
proof -
  let ?st = "init_state [default_portfolio]"
  have sn: "snd excess_step = None" by (simp add: sim_defs)
  then have lb: "loop_body default_config 0 excess_row ?st = (fst excess_step, None)"
    by (simp add: excess_step_def [symmetric] prod_eq_iff)
  have cp: "0 < length (heap ?st)" by (simp add: init_state_def)
  have dist: "distinct (map fst (heap ?st ! 0))"
    by (simp add: init_state_def default_portfolio_def)
  have w: "under_supplied_allocation default_config + strategic_growth_allocation default_config
             + proportional_allocation default_config + treasury_allocation default_config = 1"
    by (simp add: default_config_def)
  have uw: "0 \<le> under_supplied_allocation default_config" by (simp add: default_config_def)
  have sw: "0 \<le> strategic_growth_allocation default_config" by (simp add: default_config_def)
  have evs: "rebalance_events (fst excess_step) = [Some excess_event]"
    by (simp add: sim_defs)
  then have ev: "rebalance_events (fst excess_step) = rebalance_events ?st @ [Some excess_event]"
    by (simp add: init_state_def)
  have ok: "\<not> isl (snd excess_sim)" by (simp add: sim_defs excess_sim_def)
  then have run: "run_simulation default_config [default_portfolio] [excess_row] 0
                    = (fst excess_sim, Inr (projr (snd excess_sim)))"
    by (simp add: excess_sim_def [symmetric] prod_eq_iff)
  have sevs: "sr_rebalance_events (projr (snd excess_sim)) = [Some excess_event]"
    by (simp add: sim_defs excess_sim_def)
  have p: "(0::nat) < length [default_portfolio]" by simp
  have pd: "distinct (map fst ([default_portfolio] ! 0))" by (simp add: default_portfolio_def)
  have tot: "ev_total_excess_yield excess_event = 200" by (simp add: sim_defs)
  have sa: "strategic_amount default_config 200 = 60"
    by (simp add: strategic_amount_def default_config_def)
  have ne: "\<not> eligible default_config (''cmBTC'', 10)"
           "\<not> eligible default_config (''cmUSD'', 25)"
           "\<not> eligible default_config (''cmBRL'', 40)"
    by (simp_all add: eligible_def sim_defs)
  then have ne': "\<forall>item \<in> set (heap ?st ! 0). \<not> eligible default_config item"
    by (simp add: init_state_def default_portfolio_def)
  note inst = event_accounting [of default_config "[default_portfolio]" "[excess_row]" 0
      "fst excess_sim" "projr (snd excess_sim)" excess_event 0 excess_row "?st"
      "fst excess_step" excess_event, OF w uw sw]
  from inst run p pd sevs tot
  have bounds: "200 - strategic_amount default_config 200 \<le> event_accounted default_config excess_event
                \<and> event_accounted default_config excess_event \<le> 200" by simp
  from inst lb cp dist ev ne' tot sa
  have "event_accounted default_config excess_event = 140" by simp
  with sn evs ok sevs tot sa ne show ?thesis by simp
qed

section \<open>The strategic-growth bucket\<close>

text \<open>
  C2: the strategic-growth bucket is the total excess times the strategic weight; an
  asset is eligible iff its balance divided by its supply cap exceeds 0.8; and every
  eligible asset receives the bucket divided by the number of eligible assets. The
  program departs from the second and the third part. With the default configuration
  (caps 20, 50 and 1000) and a total excess of 200, the bucket is 60.
  \<^item> Balances \<open>18, 25, 40\<close>: cmBTC stands at 0.9 of its cap and is the only asset above
    0.8, yet the loop hands the bucket to nobody, because it divides the quotient by
    \<open>1e6\<close> once more.
  \<^item> Balances \<open>20000000, 25, 40\<close>: cmBTC is the only eligible asset under either
    reading, yet it receives 20, a third of the bucket, and the other 40 are handed to
    nobody.
\<close>

theorem strategic_bucket_at_failing_inputs:
  "strategic_amount default_config 200 = 60
   \<and> strategic_loop default_config (strategic_amount default_config 200)
        [(''cmBTC'', 18), (''cmUSD'', 25), (''cmBRL'', 40)]
        [(''cmBTC'', 0), (''cmUSD'', 0), (''cmBRL'', 0)]
      = Inr [(''cmBTC'', 0), (''cmUSD'', 0), (''cmBRL'', 0)]
   \<and> strategic_loop default_config (strategic_amount default_config 200)
        [(''cmBTC'', 20000000), (''cmUSD'', 25), (''cmBRL'', 40)]
        [(''cmBTC'', 0), (''cmUSD'', 0), (''cmBRL'', 0)]
      = Inr [(''cmBTC'', 20), (''cmUSD'', 0), (''cmBRL'', 0)]
   \<and> calculate_yield_redistribution default_config
        [(''cmBTC'', 18), (''cmUSD'', 25), (''cmBRL'', 40)] [] 200
      = Inr [(''cmBTC'', 40 + 40 * (18 / 83)),
             (''cmUSD'', 40 + 40 * (25 / 83)),
             (''cmBRL'', 40 * (40 / 83))]
   \<and> calculate_yield_redistribution default_config
        [(''cmBTC'', 20000000), (''cmUSD'', 25), (''cmBRL'', 40)] [] 200
      = Inr [(''cmBTC'', 40 + 20 + 40 * (20000000 / 20000065)),
             (''cmUSD'', 40 + 40 * (25 / 20000065)),
             (''cmBRL'', 40 * (40 / 20000065))]"
  by (simp add: sim_defs)

section \<open>The reported max drawdown\<close>

text \<open>
  C6: the max drawdown reported in every result bundle lies in \<open>[0, 1]\<close>. The backtester
  reports the minimum of the drawdown series without taking its absolute value, so the
  figure is never positive (\<open>calculate_results_max_drawdown_le_0\<close>) and is negative as
  soon as the portfolio value falls. Over the three days of \<open>shock_data\<close>, with the
  default configuration and portfolio, the backtester reports \<open>-1/1000\<close>, where
  \<^verbatim>\<open>PerformanceMetrics.max_drawdown\<close> gives \<open>1/1000\<close> for the same returns. (The
  Sharpe and Calmar parts of the claim hold: \<open>calculate_results_ratios_zero\<close>.)
\<close>

theorem max_drawdown_negative_at_shock:
  "map_sum id br_max_drawdown (snd shock_run) = Inr (- 1 / 1000)
   \<and> map_sum id (pm_max_drawdown \<circ> br_daily_returns) (snd shock_run) = Inr (1 / 1000)"
  by (simp add: shock_run_def sim_defs result_defs pm_max_drawdown_def)

section \<open>Failed evaluations and failed searches\<close>

text \<open>
  C7: during a search, a candidate parameter vector whose simulation raises an error is
  scored \<open>+infinity\<close> for that evaluation and no exception reaches the search loop; and
  when no method of \<^verbatim>\<open>_optimize_scipy\<close> produces a result, the optimizer raises
  \<^verbatim>\<open>RuntimeError\<close> instead of returning a default result. In order: the objective
  function always returns; when the vector is not in the cache and the backtest raises, it
  returns \<open>+infinity\<close> and leaves cache and counter alone; when every call of the
  minimizer raises, the optimizer raises; and a result the optimizer returns is always
  built from a result the minimizer returned with a value below \<open>+infinity\<close>.
\<close>

theorem failed_evaluation_is_infinite_total_failure_is_fatal:
  "(\<exists>v. fst (objective_function str data base_config objective start_date end_date params self)
          = Inr v)
   \<and> (map_of (cache self) (str params) = None
        \<and> snd (run_backtest (CCYOEBacktester_init data (params_to_config base_config params))
                  [] start_date end_date None) = Inl e
      \<longrightarrow> objective_function str data base_config objective start_date end_date params self
            = (Inr PosInf, self))
   \<and> ((\<forall>m f x b c s. isl (fst (minimize m f x b c s)))
      \<longrightarrow> fst (optimize_scipy minimize base_config objective_func constraints bounds self)
            = Inl RuntimeError)
   \<and> (\<forall>res. fst (optimize_scipy minimize base_config objective_func constraints bounds self)
              = Inr res
        \<longrightarrow> (\<exists>m x c s best. fst (minimize m objective_func x bounds c s) = Inr best
               \<and> pyfloat_less (res_fun best) PosInf
               \<and> optimal_params res = zip param_names (res_x best)))"
proof (intro conjI impI allI)
  show "\<exists>v. fst (objective_function str data base_config objective start_date end_date params self)
          = Inr v"
    by (auto simp: objective_function_def Let_def split: option.splits sum.splits)
next
  assume "map_of (cache self) (str params) = None
        \<and> snd (run_backtest (CCYOEBacktester_init data (params_to_config base_config params))
                  [] start_date end_date None) = Inl e"
  then show "objective_function str data base_config objective start_date end_date params self
            = (Inr PosInf, self)"
    by (simp add: objective_function_def Let_def)
next
  assume "\<forall>m f x b c s. isl (fst (minimize m f x b c s))"
  then have "fst (methods_loop minimize objective_func (initial_guess base_config) bounds
                    constraints [''SLSQP'', ''L-BFGS-B''] (None, PosInf, self)) = None"
    by (intro methods_loop_all_fail) simp
  then show "fst (optimize_scipy minimize base_config objective_func constraints bounds self)
            = Inl RuntimeError"
    by (simp add: optimize_scipy_cases)
next
  fix res
  assume a: "fst (optimize_scipy minimize base_config objective_func constraints bounds self)
              = Inr res"
  let ?x0 = "initial_guess base_config"
  from a obtain best where
    b: "fst (methods_loop minimize objective_func ?x0 bounds constraints
               [''SLSQP'', ''L-BFGS-B''] (None, PosInf, self)) = Some best" and
    p: "optimal_params res = zip param_names (res_x best)"
    by (auto simp: optimize_scipy_cases split: option.splits)
  from methods_loop_best [OF b] obtain m c s where
    "fst (minimize m objective_func ?x0 bounds c s) = Inr best"
    "pyfloat_less (res_fun best) PosInf" by auto
  with p show "\<exists>m x c s best. fst (minimize m objective_func x bounds c s) = Inr best
               \<and> pyfloat_less (res_fun best) PosInf
               \<and> optimal_params res = zip param_names (res_x best)" by blast
qed

theorem failed_evaluation_is_infinite_total_failure_is_fatal_witness:
  "objective_function empty_str [] None ''sharpe_ratio'' 0 0 [] empty_optimizer
     = (Inr PosInf, empty_optimizer)
   \<and> fst (optimize_scipy failing_minimizer None
            (objective_function empty_str [] None ''sharpe_ratio'' 0 0) [] [] empty_optimizer)
     = Inl RuntimeError
   \<and> map_sum id optimal_params
        (fst (optimize_scipy echo_minimizer None
                (objective_function empty_str [] None ''sharpe_ratio'' 0 0) [] []
                empty_optimizer))
     = Inr (zip param_names [4 / 10, 3 / 10, 2 / 10, 1 / 10, 100, 5])"
  using failed_evaluation_is_infinite_total_failure_is_fatal
          [where str = empty_str and data = "[]" and base_config = None
             and objective = "''sharpe_ratio''" and start_date = 0 and end_date = 0
             and params = "[]" and self = empty_optimizer and e = ValueError
             and minimize = failing_minimizer
             and objective_func = "objective_function empty_str [] None ''sharpe_ratio'' 0 0"
             and constraints = "[]" and bounds = "[]"]
        failed_evaluation_is_infinite_total_failure_is_fatal
          [where str = empty_str and data = "[]" and base_config = None
             and objective = "''sharpe_ratio''" and start_date = 0 and end_date = 0
             and params = "[]" and self = empty_optimizer and e = ValueError
             and minimize = echo_minimizer
             and objective_func = "objective_function empty_str [] None ''sharpe_ratio'' 0 0"
             and constraints = "[]" and bounds = "[]"]
  by (simp add: objective_function_def optimize_scipy_def initial_guess_def
        failing_minimizer_def echo_minimizer_def empty_str_def empty_optimizer_def
        run_backtest_def filter_data_def CCYOEBacktester_init_def prepare_data_def Let_def)

end
